theory Spec2Isabelle
  imports Complex_Main "HOL-Library.Sublist"
begin

section \<open>Job scripts: scheduler directives and the training command\<close>

text \<open>
  A job script is its list of lines. The three scripts of the repository are embedded
  verbatim: the two scripts held in
  \<^verbatim>\<open>train-scripts/run-train-fsdp-A15-E150000-WS2-v100.sh\<close> (the 15-arm job and the
  one-arm job that follows it) and the MNIST script.
\<close>

type_synonym script = "string list"

definition script_A15 :: script where
  "script_A15 =
    [''#!/bin/bash'',
     ''#SBATCH -N1'',
     ''#SBATCH --gpus=v100:2'',
     ''#SBATCH -c 16'',
     ''#SBATCH --mem=32G'',
     ''#SBATCH -p celltypes'',
     ''#SBATCH -o mmidas-logs/mmidas_%j.out'',
     ''#SBATCH -e mmidas-logs/mmidas_%j.err'',
     ''#SBATCH --time=24:00:00'',
     '''',
     ''source activate mdist-mmidas'',
     '''',
     ''python train.py --n_arm 15 --use-wandb --use_dist_sampler --n_epoch 150000'']"

definition script_A1 :: script where
  "script_A1 =
    [''#!/bin/bash'',
     ''#SBATCH -N1'',
     ''#SBATCH --gpus=v100:1'',
     ''#SBATCH -c 32'',
     ''#SBATCH --mem=32G'',
     ''#SBATCH -p celltypes'',
     ''#SBATCH -o mmidas-logs/mmidas_%j.out'',
     ''#SBATCH -e mmidas-logs/mmidas_%j.err'',
     ''#SBATCH --time=24:00:00'',
     '''',
     ''source activate mdist-mmidas'',
     '''',
     ''python train.py --n_arm 1 --use-wandb --gpus 1 --n_epoch 20000'']"

definition script_fsdp_mnist :: script where
  "script_fsdp_mnist =
    [''#!/bin/bash'',
     ''#SBATCH -N1'',
     ''#SBATCH --gpus=v100:4'',
     ''#SBATCH -c 20'',
     ''#SBATCH --mem=32G'',
     ''#SBATCH -p celltypes'',
     ''#SBATCH -o mnist-logs/mnist_%j.out'',
     ''#SBATCH -e mnist-logs/mnist_%j.err'',
     '''',
     ''source /home/hilal.mufti/miniforge3/etc/profile.d/conda.sh'',
     ''/home/hilal.mufti/miniforge3/bin/mamba activate mdist-mmidas'',
     '''',
     ''python fsdp_mnist.py --epochs 100 --batch-size 256 --model deep --gpus 4 --num_workers 4 --sharding full   --use_batchnorm   --mixed none'']"

subsection \<open>Splitting a line into words\<close>

text \<open>
  The shell and the scheduler both split a line at blanks; a run of blanks separates
  two words once. None of the scripts uses quoting, expansion or continuation lines.
\<close>

definition is_blank :: "char \<Rightarrow> bool" where
  "is_blank c = (c = CHR '' '' \<or> c = CHR 0x09)"

fun split_at :: "(char \<Rightarrow> bool) \<Rightarrow> string \<Rightarrow> string list" where
  "split_at sep [] = [[]]"
| "split_at sep (c # cs) =
     (case split_at sep cs of
        [] \<Rightarrow> (if sep c then [[], []] else [[c]])
      | w # ws \<Rightarrow> (if sep c then [] # w # ws else (c # w) # ws))"

definition words_sh :: "string \<Rightarrow> string list" where
  "words_sh l = filter (\<lambda>w. w \<noteq> []) (split_at is_blank l)"

definition is_comment :: "string \<Rightarrow> bool" where
  "is_comment l = (case words_sh l of [] \<Rightarrow> False | w # _ \<Rightarrow> take 1 w = ''#'')"

definition is_empty_line :: "string \<Rightarrow> bool" where
  "is_empty_line l = (words_sh l = [])"

subsection \<open>Scheduler directives\<close>

text \<open>
  The scheduler reads the \<^verbatim>\<open>#SBATCH\<close> lines that come before the first command of
  the script, and takes the words after \<^verbatim>\<open>#SBATCH\<close> as command-line options. A short
  option carries its value attached (\<^verbatim>\<open>-N1\<close>) or as the next word (\<^verbatim>\<open>-c 16\<close>); a long
  option carries it after \<^verbatim>\<open>=\<close>.
\<close>

definition directive_words :: "script \<Rightarrow> string list" where
  "directive_words s =
     concat (map (\<lambda>l. tl (words_sh l))
       (filter (\<lambda>l. take 1 (words_sh l) = [''#SBATCH''])
         (takeWhile (\<lambda>l. is_empty_line l \<or> is_comment l) s)))"

definition attached :: "string \<Rightarrow> string \<times> string" where
  "attached t =
     (if take 2 t = ''--''
      then (takeWhile (\<lambda>c. c \<noteq> CHR ''='') t, drop 1 (dropWhile (\<lambda>c. c \<noteq> CHR ''='') t))
      else (take 2 t, drop 2 t))"

definition bare_short :: "string \<Rightarrow> bool" where
  "bare_short t = (length t = 2 \<and> take 1 t = ''-'' \<and> t \<noteq> ''--'')"

fun sbatch_opts :: "string list \<Rightarrow> (string \<times> string) list" where
  "sbatch_opts [] = []"
| "sbatch_opts [t] = [attached t]"
| "sbatch_opts (t # v # ts) =
     (if bare_short t then (t, v) # sbatch_opts ts else attached t # sbatch_opts (v # ts))"

definition directives :: "script \<Rightarrow> (string \<times> string) list" where
  "directives s = sbatch_opts (directive_words s)"

definition is_digit :: "char \<Rightarrow> bool" where
  "is_digit c = (c \<in> set ''0123456789'')"

definition digit_val :: "char \<Rightarrow> nat" where
  "digit_val c = of_char c - 48"

definition nat_of_string :: "string \<Rightarrow> nat option" where
  "nat_of_string s =
     (if s \<noteq> [] \<and> list_all is_digit s
      then Some (foldl (\<lambda>n c. 10 * n + digit_val c) 0 s) else None)"

text \<open>The requests the claims are about, read off the options.\<close>

definition node_count :: "script \<Rightarrow> nat option" where
  "node_count s = (case map_of (directives s) ''-N'' of None \<Rightarrow> None | Some v \<Rightarrow> nat_of_string v)"

text \<open>\<^verbatim>\<open>--gpus=[type:]number\<close>: the GPU type, when given, and the count.\<close>

definition gpu_request :: "script \<Rightarrow> (string \<times> nat) option" where
  "gpu_request s =
     (case map_of (directives s) ''--gpus'' of
        None \<Rightarrow> None
      | Some v \<Rightarrow>
          (case split_at (\<lambda>c. c = CHR '':'') v of
             [n] \<Rightarrow> map_option (\<lambda>k. ('''', k)) (nat_of_string n)
           | [ty, n] \<Rightarrow> map_option (\<lambda>k. (ty, k)) (nat_of_string n)
           | _ \<Rightarrow> None))"

definition cpu_count :: "script \<Rightarrow> nat option" where
  "cpu_count s = (case map_of (directives s) ''-c'' of None \<Rightarrow> None | Some v \<Rightarrow> nat_of_string v)"

definition memory :: "script \<Rightarrow> string option" where
  "memory s = map_of (directives s) ''--mem''"

text \<open>\<^verbatim>\<open>--time=hours:minutes:seconds\<close>, in seconds.\<close>

definition time_directive :: "script \<Rightarrow> string option" where
  "time_directive s =
     (case map_of (directives s) ''--time'' of
        Some v \<Rightarrow> Some v
      | None \<Rightarrow> map_of (directives s) ''-t'')"

definition time_limit :: "script \<Rightarrow> nat option" where
  "time_limit s =
     (case time_directive s of
        None \<Rightarrow> None
      | Some v \<Rightarrow>
          (case map nat_of_string (split_at (\<lambda>c. c = CHR '':'') v) of
             [Some h, Some m, Some sec] \<Rightarrow> Some (3600 * h + 60 * m + sec)
           | _ \<Rightarrow> None))"

subsection \<open>Commands\<close>

text \<open>
  The shell runs the lines that are neither empty nor comments, in order, each once;
  it does not stop when one of them fails (no script sets \<^verbatim>\<open>-e\<close>). A command is the
  list of its words.
\<close>

definition commands :: "script \<Rightarrow> string list list" where
  "commands s = map words_sh (filter (\<lambda>l. \<not> is_empty_line l \<and> \<not> is_comment l) s)"

definition python_runs :: "script \<Rightarrow> string list list" where
  "python_runs s = map (drop 1) (filter (\<lambda>argv. take 1 argv = [''python'']) (commands s))"

text \<open>The value that follows a flag in an argument vector.\<close>

fun flag_value :: "string \<Rightarrow> string list \<Rightarrow> string option" where
  "flag_value f [] = None"
| "flag_value f [a] = None"
| "flag_value f (a # b # rest) = (if a = f then Some b else flag_value f (b # rest))"

definition training_scripts :: "script list" where
  "training_scripts = [script_A15, script_A1, script_fsdp_mnist]"

text \<open>A script that asks for all four resources of the specification.\<close>

definition requests_all :: "script \<Rightarrow> bool" where
  "requests_all s =
     (gpu_request s \<noteq> None \<and> cpu_count s \<noteq> None \<and> memory s \<noteq> None
      \<and> time_directive s \<noteq> None)"

section \<open>The data-preparation notebook\<close>

subsection \<open>Exceptions, values, frames and arrays\<close>

text \<open>
  An exception is a value. \<open>Raised\<close> stands for whatever a library raises on its own
  account (a missing file, a failed download, a parse error).
\<close>

datatype error = NameError | AttributeError | KeyError | IndexError | ValueError | Raised string

definition bind_e :: "error + 'a \<Rightarrow> ('a \<Rightarrow> error + 'b) \<Rightarrow> error + 'b" where
  "bind_e m f = (case m of Inl e \<Rightarrow> Inl e | Inr x \<Rightarrow> f x)"

text \<open>A table or array entry: text, a number, or the missing value.\<close>

datatype val = Str string | Num real | NaN

text \<open>Elementwise \<^verbatim>\<open>==\<close>: the missing value equals nothing, itself included.\<close>

definition val_eq :: "val \<Rightarrow> val \<Rightarrow> bool" where
  "val_eq a b = (a = b \<and> a \<noteq> NaN)"

text \<open>
  A data frame is held column by column, as the library holds it: the named columns in
  order, and the row labels. A frame read from a file is labelled \<open>0, 1, 2, \<dots>\<close>.
\<close>

record dataframe =
  cols :: "(string \<times> val list) list"
  index :: "val list"

definition nrows :: "dataframe \<Rightarrow> nat" where
  "nrows df = length (index df)"

definition range_index :: "nat \<Rightarrow> val list" where
  "range_index n = map (\<lambda>i. Num (real i)) [0..<n]"

text \<open>\<^verbatim>\<open>df['c']\<close> raises KeyError, \<^verbatim>\<open>df.c\<close> raises AttributeError, when there is no such column.\<close>

definition getitem :: "dataframe \<Rightarrow> string \<Rightarrow> error + val list" where
  "getitem df c = (case map_of (cols df) c of None \<Rightarrow> Inl KeyError | Some vs \<Rightarrow> Inr vs)"

definition getattr :: "dataframe \<Rightarrow> string \<Rightarrow> error + val list" where
  "getattr df c = (case map_of (cols df) c of None \<Rightarrow> Inl AttributeError | Some vs \<Rightarrow> Inr vs)"

text \<open>Selection by a boolean mask keeps the entries whose flag is set, in order.\<close>

definition bool_select :: "bool list \<Rightarrow> 'a list \<Rightarrow> 'a list" where
  "bool_select m xs = map snd (filter fst (zip m xs))"

text \<open>\<^verbatim>\<open>df[mask]\<close>: the rows whose flag is set, with their labels.\<close>

definition filter_rows :: "dataframe \<Rightarrow> bool list \<Rightarrow> error + dataframe" where
  "filter_rows df m =
     (if length m \<noteq> nrows df then Inl ValueError
      else Inr \<lparr>cols = map (\<lambda>(c, vs). (c, bool_select m vs)) (cols df),
                index = bool_select m (index df)\<rparr>)"

text \<open>
  Where the libraries put parts of different types into one column or array, they convert
  the entries to a common type: an integer column joined with a missing or a fractional
  one becomes floating point, and an integer too large for that loses its last digits.
  The conversion is the libraries'; in the model it is a parameter \<open>cast\<close>, which is
  given the parts and converts one entry. It acts entry by entry, so it moves nothing.

  \<^verbatim>\<open>pd.concat([a, b], ignore_index=True)\<close>: the rows of \<open>a\<close>, then those of \<open>b\<close>, over
  the columns of \<open>a\<close> followed by the columns only \<open>b\<close> has; a column a frame lacks is
  filled with missing values; each column is converted to the common type of its two
  parts; the rows are relabelled from 0.
\<close>

definition column_or_nan :: "dataframe \<Rightarrow> string \<Rightarrow> val list" where
  "column_or_nan df c =
     (case map_of (cols df) c of None \<Rightarrow> replicate (nrows df) NaN | Some vs \<Rightarrow> vs)"

definition merged_names :: "dataframe \<Rightarrow> dataframe \<Rightarrow> string list" where
  "merged_names a b =
     map fst (cols a) @ filter (\<lambda>c. \<not> List.member (map fst (cols a)) c) (map fst (cols b))"

definition concat_frames ::
    "(val list list \<Rightarrow> val \<Rightarrow> val) \<Rightarrow> dataframe \<Rightarrow> dataframe \<Rightarrow> dataframe" where
  "concat_frames cast a b =
     \<lparr>cols = map (\<lambda>c. (c, map (cast [column_or_nan a c, column_or_nan b c])
                            (column_or_nan a c @ column_or_nan b c)))
               (merged_names a b),
      index = range_index (nrows a + nrows b)\<rparr>"

text \<open>
  \<^verbatim>\<open>df.reset_index()\<close>: the old labels become the first column, named \<^verbatim>\<open>index\<close>, or
  \<^verbatim>\<open>level_0\<close> when a column \<^verbatim>\<open>index\<close> exists already; the insertion fails when that
  name is taken too. The rows are relabelled from 0.
\<close>

definition reset_index :: "dataframe \<Rightarrow> error + dataframe" where
  "reset_index df =
     (let name = (if List.member (map fst (cols df)) ''index'' then ''level_0'' else ''index'')
      in if List.member (map fst (cols df)) name then Inl ValueError
         else Inr \<lparr>cols = (name, index df) # cols df, index = range_index (nrows df)\<rparr>)"

text \<open>\<^verbatim>\<open>df.rename(columns=m)\<close> returns a new frame; names outside \<open>m\<close> stay.\<close>

definition rename :: "dataframe \<Rightarrow> (string \<times> string) list \<Rightarrow> dataframe" where
  "rename df m =
     df\<lparr>cols := map (\<lambda>(c, vs). (case map_of m c of None \<Rightarrow> c | Some c' \<Rightarrow> c', vs)) (cols df)\<rparr>"

text \<open>\<^verbatim>\<open>df[[c1, \<dots>, cn]]\<close>: the named columns in the order asked, KeyError when one is missing.\<close>

fun select_columns :: "dataframe \<Rightarrow> string list \<Rightarrow> error + (string \<times> val list) list" where
  "select_columns df [] = Inr []"
| "select_columns df (c # cs) =
     (case map_of (cols df) c of
        None \<Rightarrow> Inl KeyError
      | Some vs \<Rightarrow> bind_e (select_columns df cs) (\<lambda>rest. Inr ((c, vs) # rest)))"

definition getitem_list :: "dataframe \<Rightarrow> string list \<Rightarrow> error + dataframe" where
  "getitem_list df cs = bind_e (select_columns df cs) (\<lambda>sel. Inr (df\<lparr>cols := sel\<rparr>))"

text \<open>
  \<^verbatim>\<open>df[c][df[c] == old] = new\<close>: the entries of column \<open>c\<close> equal to \<open>old\<close> are
  overwritten in the frame itself (the library version the notebook records, Python
  3.10, writes through the selected column).
\<close>

definition assign_where :: "dataframe \<Rightarrow> string \<Rightarrow> val \<Rightarrow> val \<Rightarrow> error + dataframe" where
  "assign_where df c old new =
     bind_e (getitem df c) (\<lambda>_.
       Inr (df\<lparr>cols := map (\<lambda>(c', vs).
              (c', if c' = c then map (\<lambda>v. if val_eq v old then new else v) vs else vs))
            (cols df)\<rparr>))"

text \<open>
  A two-dimensional array: its rows, and the number of columns (which an array without
  rows still has).
\<close>

record ndarray =
  ncols :: nat
  arows :: "val list list"

text \<open>
  \<^verbatim>\<open>df.values[:, 1:][:, m].T\<close>: the frame's columns but the first, those whose flag in
  \<open>m\<close> is set, each as one row of the result, its entries converted to the common type
  of all the frame's columns. The mask must be as long as there are columns after the
  first.
\<close>

definition counts_T ::
    "(val list list \<Rightarrow> val \<Rightarrow> val) \<Rightarrow> dataframe \<Rightarrow> bool list \<Rightarrow> error + ndarray" where
  "counts_T cast df m =
     (if length m \<noteq> length (drop 1 (cols df)) then Inl IndexError
      else Inr \<lparr>ncols = nrows df,
                arows = bool_select m
                  (map (\<lambda>c. map (cast (map snd (cols df))) (snd c)) (drop 1 (cols df)))\<rparr>)"

text \<open>
  \<^verbatim>\<open>np.concatenate((a, b), axis=0)\<close>: the widths must agree; the entries are converted to
  the common type of the two arrays.
\<close>

definition concatenate ::
    "(val list list \<Rightarrow> val \<Rightarrow> val) \<Rightarrow> ndarray \<Rightarrow> ndarray \<Rightarrow> error + ndarray" where
  "concatenate cast a b =
     (if ncols a \<noteq> ncols b then Inl ValueError
      else Inr \<lparr>ncols = ncols a,
                arows = map (map (cast [concat (arows a), concat (arows b)]))
                          (arows a @ arows b)\<rparr>)"

text \<open>\<^verbatim>\<open>a[:, js]\<close> with a list of column numbers, and \<^verbatim>\<open>a[m, :]\<close> with a boolean mask.\<close>

definition take_columns :: "ndarray \<Rightarrow> nat list \<Rightarrow> error + ndarray" where
  "take_columns a js =
     (if list_all (\<lambda>j. j < ncols a) js
      then Inr \<lparr>ncols = length js, arows = map (\<lambda>r. map (\<lambda>j. r ! j) js) (arows a)\<rparr>
      else Inl IndexError)"

definition take_rows :: "ndarray \<Rightarrow> bool list \<Rightarrow> error + ndarray" where
  "take_rows a m =
     (if length m \<noteq> length (arows a) then Inl IndexError
      else Inr (a\<lparr>arows := bool_select m (arows a)\<rparr>))"

text \<open>\<^verbatim>\<open>np.where(vs == g)[0][0]\<close>: the first position whose entry equals \<open>g\<close>.\<close>

fun where_first :: "val list \<Rightarrow> val \<Rightarrow> nat option" where
  "where_first [] g = None"
| "where_first (v # vs) g =
     (if val_eq v g then Some 0 else map_option Suc (where_first vs g))"

text \<open>
  The annotated matrix: the expression matrix, the per-cell table (whose row labels are
  the observation names) and the variable names.
\<close>

record adata =
  X :: ndarray
  obs :: dataframe
  var_names :: "val list"

text \<open>The constructor refuses a table whose length is not the number of matrix rows.\<close>

definition AnnData :: "ndarray \<Rightarrow> dataframe \<Rightarrow> error + adata" where
  "AnnData x df =
     (if length (arows x) \<noteq> nrows df then Inl ValueError
      else Inr \<lparr>X = x, obs = df, var_names = range_index (ncols x)\<rparr>)"

definition set_var_names :: "adata \<Rightarrow> val list \<Rightarrow> error + adata" where
  "set_var_names a ns =
     (if length ns \<noteq> ncols (X a) then Inl ValueError else Inr (a\<lparr>var_names := ns\<rparr>))"

definition set_obs_names :: "adata \<Rightarrow> val list \<Rightarrow> error + adata" where
  "set_obs_names a ns =
     (if length ns \<noteq> nrows (obs a) then Inl ValueError
      else Inr (a\<lparr>obs := (obs a)\<lparr>index := ns\<rparr>\<rparr>))"

text \<open>The sparse form holds the same matrix.\<close>

definition csr_matrix :: "ndarray \<Rightarrow> ndarray" where
  "csr_matrix a = a"

subsection \<open>The kernel's names\<close>

text \<open>
  A notebook runs in a kernel, whose global names are what the cells bind, on top of what
  the kernel held before the first cell. Cell 1 binds the imports under these names;
  in particular it binds the array library as \<^verbatim>\<open>nps\<close>, while cells 4 and 6 refer to it
  as \<^verbatim>\<open>np\<close> (\<^verbatim>\<open>np.concatenate\<close>, \<^verbatim>\<open>np.sum\<close>, \<^verbatim>\<open>np.where\<close>). No cell assigns \<^verbatim>\<open>np\<close>, and
  every other name a cell uses is bound by cell 1 or by an earlier assignment.
\<close>

datatype pyobj = Module string | Callable string | Data

type_synonym namespace = "string \<Rightarrow> pyobj option"

definition cell1 :: "namespace \<Rightarrow> namespace" where
  "cell1 g = g(''os'' \<mapsto> Module ''os'',
               ''pd'' \<mapsto> Module ''pandas'',
               ''requests'' \<mapsto> Module ''requests'',
               ''nps'' \<mapsto> Module ''numpy'',
               ''ad'' \<mapsto> Module ''anndata'',
               ''csr_matrix'' \<mapsto> Callable ''scipy.sparse.csr_matrix'',
               ''HTree'' \<mapsto> Callable ''mmidas.utils.taxonomy.HTree'',
               ''logcpm'' \<mapsto> Callable ''mmidas.utils.tools.logcpm'',
               ''get_paths'' \<mapsto> Callable ''mmidas.utils.tools.get_paths'',
               ''download_file'' \<mapsto> Callable ''mmidas.utils.tools.download_file'',
               ''warnings'' \<mapsto> Module ''warnings'')"

text \<open>
  Evaluating \<^verbatim>\<open>np.f\<close>: NameError when the name is unbound, AttributeError when it is
  bound to something other than the array library.
\<close>

definition np :: "namespace \<Rightarrow> error + unit" where
  "np g =
     (case g ''np'' of
        None \<Rightarrow> Inl NameError
      | Some (Module m) \<Rightarrow> (if m = ''numpy'' then Inr () else Inl AttributeError)
      | Some _ \<Rightarrow> Inl AttributeError)"

subsection \<open>The world outside the notebook\<close>

text \<open>
  The configuration is a two-level dictionary. The world of a run is: the names the
  kernel holds before cell 1; the files on disk before the run, each path with its
  content; and what the library calls make of their arguments. \<^verbatim>\<open>get_paths\<close>,
  \<^verbatim>\<open>download_file\<close>, \<^verbatim>\<open>HTree\<close> and \<^verbatim>\<open>logcpm\<close> belong to the repository's package but
  are not among the sources at hand; like the parser of tables, the conversion to a
  common type, the creation of directories and the writer, they are parameters: what
  each call returns or raises is given by the world.
  \<^item> \<open>download_file w url path\<close> is the content the call saves at \<open>path\<close>;
  \<^item> \<open>parse_csv w content encoding\<close> is the frame read from a file of that content;
  \<^item> \<open>HTree w content\<close> is the outcome of building the tree from a file of that content;
  \<^item> \<open>logcpm_cell w counts scaler\<close> is the normalization of the counts of one cell;
  \<^item> \<open>write_h5ad w path a\<close> is the outcome of serializing \<open>a\<close> to \<open>path\<close>.
\<close>

type_synonym config = "string \<Rightarrow> (string \<Rightarrow> string option) option"

record world =
  kernel :: namespace
  get_paths :: "string \<Rightarrow> string \<Rightarrow> error + config"
  files :: "string \<Rightarrow> string option"
  makedirs :: "string \<Rightarrow> error + unit"
  download_file :: "string \<Rightarrow> string \<Rightarrow> error + string"
  parse_csv :: "string \<Rightarrow> string \<Rightarrow> error + dataframe"
  HTree :: "string \<Rightarrow> error + unit"
  common_type :: "val list list \<Rightarrow> val \<Rightarrow> val"
  logcpm_cell :: "val list \<Rightarrow> real \<Rightarrow> error + val list"
  write_h5ad :: "string \<Rightarrow> adata \<Rightarrow> error + unit"

definition cfg_get :: "config \<Rightarrow> string \<Rightarrow> string \<Rightarrow> error + string" where
  "cfg_get config sec key =
     (case config sec of
        None \<Rightarrow> Inl KeyError
      | Some d \<Rightarrow> (case d key of None \<Rightarrow> Inl KeyError | Some v \<Rightarrow> Inr v))"

text \<open>\<^verbatim>\<open>a / b\<close> on paths: an absolute \<open>b\<close> replaces \<open>a\<close>.\<close>

definition path_join :: "string \<Rightarrow> string \<Rightarrow> string" where
  "path_join a b = (if take 1 b = ''/'' then b else a @ ''/'' @ b)"

subsection \<open>Runs: the calls made, and the result\<close>

text \<open>
  A run is the list of the calls the notebook has made on the world, in order, each with
  the exception it raised (if any), and either the exception that ended the run or its
  result. A call is recorded when it is made, whatever its outcome. The download carries
  the content it saved, the write the object it serialized.
\<close>

datatype event =
    GetPaths string string
  | MakeDirs string
  | Download string string "string option"
  | ReadCsv string string
  | LoadTree string
  | WriteH5ad string adata

type_synonym trace = "(event \<times> error option) list"

type_synonym 'a run = "trace \<times> (error + 'a)"

definition raised :: "error + 'a \<Rightarrow> error option" where
  "raised r = (case r of Inl e \<Rightarrow> Some e | Inr _ \<Rightarrow> None)"

definition pure :: "error + 'a \<Rightarrow> 'a run" where
  "pure r = ([], r)"

definition call :: "event \<Rightarrow> error + 'a \<Rightarrow> 'a run" where
  "call ev r = ([(ev, raised r)], r)"

definition then_run :: "'a run \<Rightarrow> ('a \<Rightarrow> 'b run) \<Rightarrow> 'b run" where
  "then_run m f =
     (case m of
        (t, Inl e) \<Rightarrow> (t, Inl e)
      | (t, Inr x) \<Rightarrow> (case f x of (t', r) \<Rightarrow> (t @ t', r)))"

text \<open>
  The files a run has serialized (the writes that returned), the writes it has attempted
  (a write that raised may leave a partial file), and the statement each call belongs to.
\<close>

fun serialized :: "trace \<Rightarrow> (string \<times> adata) list" where
  "serialized [] = []"
| "serialized ((WriteH5ad p a, None) # t) = (p, a) # serialized t"
| "serialized (_ # t) = serialized t"

fun attempted :: "trace \<Rightarrow> (string \<times> adata) list" where
  "attempted [] = []"
| "attempted ((WriteH5ad p a, _) # t) = (p, a) # attempted t"
| "attempted (_ # t) = attempted t"

fun step_name :: "event \<Rightarrow> string" where
  "step_name (GetPaths _ _) = ''config''"
| "step_name (MakeDirs _) = ''os.makedirs''"
| "step_name (Download _ _ _) = ''download_file''"
| "step_name (ReadCsv v _) = v"
| "step_name (LoadTree _) = ''treeObj''"
| "step_name (WriteH5ad _ _) = ''adata.write_h5ad''"

definition steps :: "trace \<Rightarrow> string list" where
  "steps t = map (\<lambda>c. step_name (fst c)) t"

subsection \<open>The cells\<close>

text \<open>
  The list comprehension of cell 6, and the row-by-row normalization below, stop at the
  first exception.
\<close>

fun map_e :: "('a \<Rightarrow> error + 'b) \<Rightarrow> 'a list \<Rightarrow> error + 'b list" where
  "map_e f [] = Inr []"
| "map_e f (x # xs) = bind_e (f x) (\<lambda>y. bind_e (map_e f xs) (\<lambda>ys. Inr (y # ys)))"

text \<open>Cell 2: the configuration, the data directory, the download.\<close>

definition url :: string where
  "url = ''https://idk-etl-prod-download-bucket.s3.amazonaws.com/aibs_mouse_ctx-hpf_10x/expression_matrix.hdf5''"

definition toml_file :: string where
  "toml_file = ''pyproject.toml''"

definition sub_file :: string where
  "sub_file = ''10x_files''"

definition call_download :: "world \<Rightarrow> string \<Rightarrow> string \<Rightarrow> string run" where
  "call_download w u path =
     call (Download u path (case download_file w u path of Inl _ \<Rightarrow> None | Inr c \<Rightarrow> Some c))
          (download_file w u path)"

definition cell2 :: "world \<Rightarrow> (config \<times> string) run" where
  "cell2 w =
     then_run (call (GetPaths toml_file sub_file) (get_paths w toml_file sub_file)) (\<lambda>config.
     then_run (pure (bind_e (cfg_get config ''paths'' ''main_dir'') (\<lambda>main_dir.
                     bind_e (cfg_get config sub_file ''data_path'') (\<lambda>d.
                     Inr (path_join main_dir d))))) (\<lambda>data_path.
     then_run (call (MakeDirs data_path) (makedirs w data_path)) (\<lambda>_.
     then_run (call_download w url (path_join data_path ''mouse_10x.hdf5'')) (\<lambda>_.
     pure (Inr (config, data_path))))))"

text \<open>
  The disk after cell 2: the files that were there, and the download at its path. A table
  is read from the file at its path, as the disk then holds it.
\<close>

definition disk :: "world \<Rightarrow> string \<Rightarrow> string \<Rightarrow> string option" where
  "disk w data_path =
     (case download_file w url (path_join data_path ''mouse_10x.hdf5'') of
        Inl _ \<Rightarrow> files w
      | Inr content \<Rightarrow> (files w)(path_join data_path ''mouse_10x.hdf5'' \<mapsto> content))"

definition read_csv ::
    "world \<Rightarrow> (string \<Rightarrow> string option) \<Rightarrow> string \<Rightarrow> string \<Rightarrow> error + dataframe" where
  "read_csv w fs path enc =
     (case fs path of
        None \<Rightarrow> Inl (Raised ''FileNotFoundError'')
      | Some content \<Rightarrow> parse_csv w content enc)"

definition load_tree :: "world \<Rightarrow> (string \<Rightarrow> string option) \<Rightarrow> string \<Rightarrow> error + unit" where
  "load_tree w fs path =
     (case fs path of
        None \<Rightarrow> Inl (Raised ''FileNotFoundError'')
      | Some content \<Rightarrow> HTree w content)"

text \<open>Cell 3: the four tables, read in this order.\<close>

record cell3_vars =
  df_vis_exon :: dataframe
  df_vis_anno :: dataframe
  df_alm_exon :: dataframe
  df_alm_anno :: dataframe

definition call_read_csv ::
    "world \<Rightarrow> (string \<Rightarrow> string option) \<Rightarrow> string \<Rightarrow> string \<Rightarrow> string \<Rightarrow> dataframe run" where
  "call_read_csv w fs var path enc = call (ReadCsv var path) (read_csv w fs path enc)"

definition cell3 :: "world \<Rightarrow> string \<Rightarrow> cell3_vars run" where
  "cell3 w data_path =
     then_run (call_read_csv w (disk w data_path) ''df_vis_exon''
        (path_join data_path ''mouse_VISp_2018-06-14_exon-matrix.csv'') ''utf-8'') (\<lambda>ve.
     then_run (call_read_csv w (disk w data_path) ''df_vis_anno''
        (path_join data_path ''mouse_VISp_2018-06-14_samples-columns.csv'')
        ''unicode_escape'') (\<lambda>va.
     then_run (call_read_csv w (disk w data_path) ''df_alm_exon''
        (path_join data_path ''mouse_ALM_2018-06-14_exon-matrix.csv'') ''utf-8'') (\<lambda>ae.
     then_run (call_read_csv w (disk w data_path) ''df_alm_anno''
        (path_join data_path ''mouse_ALM_2018-06-14_samples-columns.csv'')
        ''unicode_escape'') (\<lambda>aa.
     pure (Inr \<lparr>df_vis_exon = ve, df_vis_anno = va, df_alm_exon = ae, df_alm_anno = aa\<rparr>)))))"

text \<open>
  Cell 4: the neuronal cells of both regions, their counts and annotations put
  together, and the normalization of the counts.
\<close>

definition isin :: "val list \<Rightarrow> val list \<Rightarrow> bool list" where
  "isin vs allowed = map (\<lambda>v. list_ex (val_eq v) allowed) vs"

definition neuron_classes :: "val list" where
  "neuron_classes = [Str ''GABAergic'', Str ''Glutamatergic'']"

text \<open>The variable \<^verbatim>\<open>df_anno_\<close> of the notebook is the field \<open>df_anno_merged\<close>.\<close>

record cell4_vars =
  vis_neuron :: "bool list"
  alm_neuron :: "bool list"
  vis_counts :: ndarray
  alm_counts :: ndarray
  df_anno_merged :: dataframe
  total_count :: ndarray
  logCPM :: ndarray

text \<open>
  Modelled from the spec: \<^verbatim>\<open>logcpm\<close>, of the package's tools, is not among the sources.
  The specification calls it the log-transformed counts-per-million normalization of
  gene expression counts: the counts of each cell, one row of the matrix, are normalized
  by themselves, row after row. What the normalization makes of one row (the division
  by the row's total, the scaler, the logarithm), and whether it raises, is the world's
  \<open>logcpm_cell\<close>.
\<close>

definition logcpm :: "world \<Rightarrow> ndarray \<Rightarrow> real \<Rightarrow> error + ndarray" where
  "logcpm w a scaler =
     bind_e (map_e (\<lambda>r. logcpm_cell w r scaler) (arows a)) (\<lambda>rows. Inr (a\<lparr>arows := rows\<rparr>))"

definition cell4 :: "namespace \<Rightarrow> world \<Rightarrow> cell3_vars \<Rightarrow> error + cell4_vars" where
  "cell4 g w v3 =
     bind_e (getitem (df_vis_anno v3) ''class'') (\<lambda>vis_class.
     bind_e (getitem (df_alm_anno v3) ''class'') (\<lambda>alm_class.
     bind_e (counts_T (common_type w) (df_vis_exon v3) (isin vis_class neuron_classes)) (\<lambda>vc.
     bind_e (counts_T (common_type w) (df_alm_exon v3) (isin alm_class neuron_classes)) (\<lambda>ac.
     bind_e (filter_rows (df_vis_anno v3) (isin vis_class neuron_classes)) (\<lambda>vis_sel.
     bind_e (filter_rows (df_alm_anno v3) (isin alm_class neuron_classes)) (\<lambda>alm_sel.
     bind_e (np g) (\<lambda>_.
     bind_e (concatenate (common_type w) vc ac) (\<lambda>tc.
     bind_e (logcpm w tc 1000000) (\<lambda>lc.
     bind_e (np g) (\<lambda>_.
     Inr \<lparr>vis_neuron = isin vis_class neuron_classes,
          alm_neuron = isin alm_class neuron_classes,
          vis_counts = vc, alm_counts = ac,
          df_anno_merged = concat_frames (common_type w) vis_sel alm_sel,
          total_count = tc, logCPM = lc\<rparr>))))))))))"

text \<open>Cell 5: the reference gene list and the selected genes.\<close>

record cell5_vars =
  ref_genes_df :: dataframe
  slc_gene_df :: dataframe

definition cell5 :: "world \<Rightarrow> config \<Rightarrow> string \<Rightarrow> cell5_vars run" where
  "cell5 w config data_path =
     then_run (pure (cfg_get config sub_file ''ref_gene_file'')) (\<lambda>f.
     then_run (call_read_csv w (disk w data_path) ''ref_genes_df''
        (path_join data_path ''mouse_ALM_2018-06-14_genes-rows.csv'') ''utf-8'') (\<lambda>r.
     then_run (call_read_csv w (disk w data_path) ''slc_gene_df'' (path_join data_path f) ''utf-8'') (\<lambda>s.
     pure (Inr \<lparr>ref_genes_df = r, slc_gene_df = s\<rparr>))))"

text \<open>
  Cell 6: the columns of the selected genes, then the rows of the cells that are kept. The
  comprehension over the selected genes stops at the first exception.
\<close>

definition gene_index :: "namespace \<Rightarrow> dataframe \<Rightarrow> val \<Rightarrow> error + nat" where
  "gene_index g ref gg =
     bind_e (np g) (\<lambda>_.
     bind_e (getattr ref ''gene_symbol'') (\<lambda>symbols.
     case where_first symbols gg of None \<Rightarrow> Inl IndexError | Some i \<Rightarrow> Inr i))"

definition keep_cluster :: "val \<Rightarrow> bool" where
  "keep_cluster v =
     (\<not> val_eq v (Str ''Low Quality'') \<and> \<not> val_eq v (Str ''CR Lhx5'')
      \<and> \<not> val_eq v (Str ''Meis2 Adamts19''))"

record cell6_vars =
  genes :: "val list"
  gene_indx :: "nat list"
  cell_mask :: "bool list"
  df_anno :: dataframe
  log1p :: ndarray

definition cell6 :: "namespace \<Rightarrow> cell4_vars \<Rightarrow> cell5_vars \<Rightarrow> error + cell6_vars" where
  "cell6 g v4 v5 =
     bind_e (getattr (slc_gene_df v5) ''genes'') (\<lambda>gs.
     bind_e (map_e (gene_index g (ref_genes_df v5)) gs) (\<lambda>gi.
     bind_e (take_columns (logCPM v4) gi) (\<lambda>selected.
     bind_e (getitem (df_anno_merged v4) ''cluster'') (\<lambda>cluster.
     bind_e (filter_rows (df_anno_merged v4) (map keep_cluster cluster)) (\<lambda>kept.
     bind_e (reset_index kept) (\<lambda>da.
     bind_e (take_rows selected (map keep_cluster cluster)) (\<lambda>l.
     Inr \<lparr>genes = gs, gene_indx = gi, cell_mask = map keep_cluster cluster,
          df_anno = da, log1p = l\<rparr>)))))))"

text \<open>
  Cell 7: the taxonomy tree is loaded (its leaves and colours are not used afterwards);
  the renaming of columns is an expression whose value is dropped; two cluster names are
  overwritten in place. \<open>rename_statement df\<close> is the value of the call and the frame
  \<^verbatim>\<open>df_anno\<close> after the statement.
\<close>

definition rename_statement :: "dataframe \<Rightarrow> dataframe \<times> dataframe" where
  "rename_statement df =
     (rename df [(''seq_name'', ''sample_id''), (''class'', ''class_label'')], df)"

definition cell7 :: "world \<Rightarrow> config \<Rightarrow> string \<Rightarrow> dataframe \<Rightarrow> dataframe run" where
  "cell7 w config data_path da =
     then_run (pure (cfg_get config sub_file ''htree_file'')) (\<lambda>f.
     then_run (call (LoadTree (path_join data_path f))
                 (load_tree w (disk w data_path) (path_join data_path f))) (\<lambda>_.
     pure (bind_e (assign_where (snd (rename_statement da)) ''cluster''
                     (Str ''L6b VISp Col8a1 Rprm'') (Str ''L6b Col8a1 Rprm'')) (\<lambda>d1.
           assign_where d1 ''cluster''
                     (Str ''L6 CT ALM Nxph2 Sla'') (Str ''L6 CT Nxph2 Sla'')))))"

text \<open>Cell 8: the metadata columns, the annotated matrix, the file.\<close>

definition obs_columns :: "string list" where
  "obs_columns = [''sample_name'', ''sample_id'', ''seq_batch'', ''sex'', ''brain_hemisphere'',
     ''brain_region'', ''brain_subregion'', ''class'', ''subclass'', ''cluster'',
     ''confusion_score'']"

record cell8_vars =
  sub_df :: dataframe
  adata_var :: adata

definition build_adata :: "val list \<Rightarrow> ndarray \<Rightarrow> dataframe \<Rightarrow> error + cell8_vars" where
  "build_adata gs l da =
     bind_e (getitem_list da obs_columns) (\<lambda>sd.
     bind_e (AnnData (csr_matrix l) sd) (\<lambda>a0.
     bind_e (set_var_names a0 gs) (\<lambda>a1.
     bind_e (getattr sd ''sample_id'') (\<lambda>ids.
     bind_e (set_obs_names a1 ids) (\<lambda>a2.
     Inr \<lparr>sub_df = sd, adata_var = a2\<rparr>)))))"

definition cell8 ::
    "world \<Rightarrow> config \<Rightarrow> string \<Rightarrow> cell6_vars \<Rightarrow> dataframe \<Rightarrow> cell8_vars run" where
  "cell8 w config data_path v6 da =
     then_run (pure (build_adata (genes v6) (log1p v6) da)) (\<lambda>v8.
     then_run (pure (cfg_get config sub_file ''anndata_file'')) (\<lambda>f.
     then_run (call (WriteH5ad (path_join data_path f) (adata_var v8))
                 (write_h5ad w (path_join data_path f) (adata_var v8))) (\<lambda>_.
     pure (Inr v8))))"

subsection \<open>The notebook, run from the first cell to the last\<close>

text \<open>The result of a complete run: the variables the kernel holds at the end.\<close>

record kernel_vars =
  v3 :: cell3_vars
  v4 :: cell4_vars
  v5 :: cell5_vars
  v6 :: cell6_vars
  df_anno_final :: dataframe
  v8 :: cell8_vars

definition notebook :: "world \<Rightarrow> kernel_vars run" where
  "notebook w =
     then_run (cell2 w) (\<lambda>(config, data_path).
     then_run (cell3 w data_path) (\<lambda>c3.
     then_run (pure (cell4 (cell1 (kernel w)) w c3)) (\<lambda>c4.
     then_run (cell5 w config data_path) (\<lambda>c5.
     then_run (pure (cell6 (cell1 (kernel w)) c4 c5)) (\<lambda>c6.
     then_run (cell7 w config data_path (df_anno c6)) (\<lambda>da.
     then_run (cell8 w config data_path c6 da) (\<lambda>c8.
     pure (Inr \<lparr>v3 = c3, v4 = c4, v5 = c5, v6 = c6, df_anno_final = da, v8 = c8\<rparr>))))))))"


subsection \<open>The shape of a run\<close>

text \<open>
  The statements that call on the world, in the order of the notebook. A run is in order
  when its calls are these statements from the first on, each once; when no call but the
  last raised; and when an exception raised by the last call is the one that ended the
  run.
\<close>

definition all_steps :: "string list" where
  "all_steps = [''config'', ''os.makedirs'', ''download_file'', ''df_vis_exon'', ''df_vis_anno'',
     ''df_alm_exon'', ''df_alm_anno'', ''ref_genes_df'', ''slc_gene_df'', ''treeObj'',
     ''adata.write_h5ad'']"

definition quiet :: "trace \<Rightarrow> bool" where
  "quiet t = list_all (\<lambda>c. snd c = None) t"

definition in_order :: "string list \<Rightarrow> 'a run \<Rightarrow> bool" where
  "in_order xs r =
     (case r of
        (t, Inr _) \<Rightarrow> steps t = xs \<and> quiet t
      | (t, Inl e) \<Rightarrow> prefix (steps t) xs \<and> quiet (butlast t)
                       \<and> (t = [] \<or> snd (last t) = None \<or> snd (last t) = Some e))"

subsection \<open>A small data set\<close>

text \<open>
  Three genes; three cells from VISp, of which the second is not neuronal and the third
  is of low quality; two neuronal cells from ALM. Two genes are selected, in an order
  that differs from the reference list. The stand-in for the normalization of a cell scales
  its counts to sum to the scaler; nothing needs conversion.
\<close>

definition anno_columns :: "string list" where
  "anno_columns = [''sample_name'', ''sample_id'', ''seq_batch'', ''sex'', ''brain_hemisphere'',
     ''brain_region'', ''brain_subregion'', ''class'', ''subclass'', ''cluster'',
     ''confusion_score'', ''seq_name'']"

definition ex_vis_anno :: dataframe where
  "ex_vis_anno =
     \<lparr>cols = [(''sample_name'', [Str ''v1'', Str ''v2'', Str ''v3'']),
              (''sample_id'', [Str ''id11'', Str ''id12'', Str ''id13'']),
              (''seq_batch'', [Str ''b1'', Str ''b1'', Str ''b2'']),
              (''sex'', [Str ''M'', Str ''F'', Str ''M'']),
              (''brain_hemisphere'', [Str ''L'', Str ''L'', Str ''R'']),
              (''brain_region'', [Str ''VISp'', Str ''VISp'', Str ''VISp'']),
              (''brain_subregion'', [Str ''L6'', Str ''L1'', Str ''L5'']),
              (''class'', [Str ''Glutamatergic'', Str ''Non-Neuronal'', Str ''GABAergic'']),
              (''subclass'', [Str ''L6b'', Str ''Astro'', Str ''Sst'']),
              (''cluster'', [Str ''L6b VISp Col8a1 Rprm'', Str ''Astro Aqp4'',
                             Str ''Low Quality'']),
              (''confusion_score'', [Num 0, Num 1, Num 2]),
              (''seq_name'', [Str ''s1'', Str ''s2'', Str ''s3''])],
      index = [Num 0, Num 1, Num 2]\<rparr>"

definition ex_alm_anno :: dataframe where
  "ex_alm_anno =
     \<lparr>cols = [(''sample_name'', [Str ''a1'', Str ''a2'']),
              (''sample_id'', [Str ''id21'', Str ''id22'']),
              (''seq_batch'', [Str ''b3'', Str ''b3'']),
              (''sex'', [Str ''F'', Str ''M'']),
              (''brain_hemisphere'', [Str ''L'', Str ''R'']),
              (''brain_region'', [Str ''ALM'', Str ''ALM'']),
              (''brain_subregion'', [Str ''L6'', Str ''L2'']),
              (''class'', [Str ''Glutamatergic'', Str ''GABAergic'']),
              (''subclass'', [Str ''L6 CT'', Str ''Vip'']),
              (''cluster'', [Str ''L6 CT ALM Nxph2 Sla'', Str ''Vip Gpc3'']),
              (''confusion_score'', [Num 3, Num 4]),
              (''seq_name'', [Str ''s4'', Str ''s5''])],
      index = [Num 0, Num 1]\<rparr>"

definition ex_vis_exon :: dataframe where
  "ex_vis_exon =
     \<lparr>cols = [(''Unnamed: 0'', [Num 100, Num 200, Num 300]),
              (''v1'', [Num 1, Num 2, Num 1]),
              (''v2'', [Num 5, Num 5, Num 0]),
              (''v3'', [Num 0, Num 1, Num 1])],
      index = [Num 0, Num 1, Num 2]\<rparr>"

definition ex_alm_exon :: dataframe where
  "ex_alm_exon =
     \<lparr>cols = [(''Unnamed: 0'', [Num 100, Num 200, Num 300]),
              (''a1'', [Num 3, Num 0, Num 1]),
              (''a2'', [Num 0, Num 0, Num 5])],
      index = [Num 0, Num 1, Num 2]\<rparr>"

definition ex_ref_genes :: dataframe where
  "ex_ref_genes =
     \<lparr>cols = [(''gene_symbol'', [Str ''Sst'', Str ''Vip'', Str ''Gad1'']),
              (''gene_id'', [Num 100, Num 200, Num 300])],
      index = [Num 0, Num 1, Num 2]\<rparr>"

definition ex_slc_genes :: dataframe where
  "ex_slc_genes = \<lparr>cols = [(''genes'', [Str ''Gad1'', Str ''Sst''])], index = [Num 0, Num 1]\<rparr>"

definition ex_config :: config where
  "ex_config =
     [''paths'' \<mapsto> [''main_dir'' \<mapsto> ''/repo''],
      ''10x_files'' \<mapsto> [''data_path'' \<mapsto> ''data'', ''ref_gene_file'' \<mapsto> ''genes.csv'',
                        ''htree_file'' \<mapsto> ''tree.csv'', ''anndata_file'' \<mapsto> ''out.h5ad'']]"

definition ex_files :: "string \<Rightarrow> string option" where
  "ex_files path =
     (if path = ''/repo/data/mouse_VISp_2018-06-14_exon-matrix.csv'' then Some ''VISp counts''
      else if path = ''/repo/data/mouse_VISp_2018-06-14_samples-columns.csv''
        then Some ''VISp samples''
      else if path = ''/repo/data/mouse_ALM_2018-06-14_exon-matrix.csv'' then Some ''ALM counts''
      else if path = ''/repo/data/mouse_ALM_2018-06-14_samples-columns.csv''
        then Some ''ALM samples''
      else if path = ''/repo/data/mouse_ALM_2018-06-14_genes-rows.csv'' then Some ''all genes''
      else if path = ''/repo/data/genes.csv'' then Some ''selected genes''
      else if path = ''/repo/data/tree.csv'' then Some ''tree''
      else None)"

definition ex_parse_csv :: "string \<Rightarrow> string \<Rightarrow> error + dataframe" where
  "ex_parse_csv content enc =
     (if content = ''VISp counts'' then Inr ex_vis_exon
      else if content = ''VISp samples'' then Inr ex_vis_anno
      else if content = ''ALM counts'' then Inr ex_alm_exon
      else if content = ''ALM samples'' then Inr ex_alm_anno
      else if content = ''all genes'' then Inr ex_ref_genes
      else if content = ''selected genes'' then Inr ex_slc_genes
      else Inl (Raised ''ParserError''))"

definition num_of :: "val \<Rightarrow> real" where
  "num_of v = (case v of Num x \<Rightarrow> x | _ \<Rightarrow> 0)"

definition ex_logcpm_cell :: "val list \<Rightarrow> real \<Rightarrow> error + val list" where
  "ex_logcpm_cell r scaler =
     Inr (map (\<lambda>v. Num (num_of v * scaler / sum_list (map num_of r))) r)"

text \<open>A kernel with nothing bound before cell 1, and one that holds \<^verbatim>\<open>np\<close> already.\<close>

definition fresh_kernel :: namespace where
  "fresh_kernel = Map.empty"

definition used_kernel :: namespace where
  "used_kernel = [''np'' \<mapsto> Module ''numpy'']"

definition ex_world :: "namespace \<Rightarrow> world" where
  "ex_world k =
     \<lparr>kernel = k,
      get_paths = (\<lambda>t s. Inr ex_config),
      files = ex_files,
      makedirs = (\<lambda>p. Inr ()),
      download_file = (\<lambda>u p. Inr ''hdf5 bytes''),
      parse_csv = ex_parse_csv,
      HTree = (\<lambda>content. Inr ()),
      common_type = (\<lambda>parts v. v),
      logcpm_cell = ex_logcpm_cell,
      write_h5ad = (\<lambda>p a. Inr ())\<rparr>"

text \<open>
  The values the cells compute on this data set, in a kernel that holds \<^verbatim>\<open>np\<close>: what was
  read, the merged table and counts, the normalized counts, the kept cells, and the
  annotated matrix written.
\<close>

definition ex_v3 :: cell3_vars where
  "ex_v3 = \<lparr>df_vis_exon = ex_vis_exon, df_vis_anno = ex_vis_anno,
            df_alm_exon = ex_alm_exon, df_alm_anno = ex_alm_anno\<rparr>"

definition ex_merged :: dataframe where
  "ex_merged =
     \<lparr>cols = [(''sample_name'', [Str ''v1'', Str ''v3'', Str ''a1'', Str ''a2'']),
              (''sample_id'', [Str ''id11'', Str ''id13'', Str ''id21'', Str ''id22'']),
              (''seq_batch'', [Str ''b1'', Str ''b2'', Str ''b3'', Str ''b3'']),
              (''sex'', [Str ''M'', Str ''M'', Str ''F'', Str ''M'']),
              (''brain_hemisphere'', [Str ''L'', Str ''R'', Str ''L'', Str ''R'']),
              (''brain_region'', [Str ''VISp'', Str ''VISp'', Str ''ALM'', Str ''ALM'']),
              (''brain_subregion'', [Str ''L6'', Str ''L5'', Str ''L6'', Str ''L2'']),
              (''class'', [Str ''Glutamatergic'', Str ''GABAergic'', Str ''Glutamatergic'', Str ''GABAergic'']),
              (''subclass'', [Str ''L6b'', Str ''Sst'', Str ''L6 CT'', Str ''Vip'']),
              (''cluster'', [Str ''L6b VISp Col8a1 Rprm'', Str ''Low Quality'', Str ''L6 CT ALM Nxph2 Sla'', Str ''Vip Gpc3'']),
              (''confusion_score'', [Num 0, Num 2, Num 3, Num 4]),
              (''seq_name'', [Str ''s1'', Str ''s3'', Str ''s4'', Str ''s5''])],
      index = [Num 0, Num 1, Num 2, Num 3]\<rparr>"

definition ex_v4 :: cell4_vars where
  "ex_v4 =
     \<lparr>vis_neuron = [True, False, True], alm_neuron = [True, True],
      vis_counts = \<lparr>ncols = 3, arows = [[Num 1, Num 2, Num 1], [Num 0, Num 1, Num 1]]\<rparr>,
      alm_counts = \<lparr>ncols = 3, arows = [[Num 3, Num 0, Num 1], [Num 0, Num 0, Num 5]]\<rparr>,
      df_anno_merged = ex_merged,
      total_count = \<lparr>ncols = 3, arows = [[Num 1, Num 2, Num 1], [Num 0, Num 1, Num 1],
                                          [Num 3, Num 0, Num 1], [Num 0, Num 0, Num 5]]\<rparr>,
      logCPM = \<lparr>ncols = 3, arows = [[Num 250000, Num 500000, Num 250000],
                                     [Num 0, Num 500000, Num 500000],
                                     [Num 750000, Num 0, Num 250000],
                                     [Num 0, Num 0, Num 1000000]]\<rparr>\<rparr>"

definition ex_v5 :: cell5_vars where
  "ex_v5 = \<lparr>ref_genes_df = ex_ref_genes, slc_gene_df = ex_slc_genes\<rparr>"

definition ex_df_anno :: dataframe where
  "ex_df_anno =
     \<lparr>cols = [(''index'', [Num 0, Num 2, Num 3]),
              (''sample_name'', [Str ''v1'', Str ''a1'', Str ''a2'']),
              (''sample_id'', [Str ''id11'', Str ''id21'', Str ''id22'']),
              (''seq_batch'', [Str ''b1'', Str ''b3'', Str ''b3'']),
              (''sex'', [Str ''M'', Str ''F'', Str ''M'']),
              (''brain_hemisphere'', [Str ''L'', Str ''L'', Str ''R'']),
              (''brain_region'', [Str ''VISp'', Str ''ALM'', Str ''ALM'']),
              (''brain_subregion'', [Str ''L6'', Str ''L6'', Str ''L2'']),
              (''class'', [Str ''Glutamatergic'', Str ''Glutamatergic'', Str ''GABAergic'']),
              (''subclass'', [Str ''L6b'', Str ''L6 CT'', Str ''Vip'']),
              (''cluster'', [Str ''L6b VISp Col8a1 Rprm'', Str ''L6 CT ALM Nxph2 Sla'', Str ''Vip Gpc3'']),
              (''confusion_score'', [Num 0, Num 3, Num 4]),
              (''seq_name'', [Str ''s1'', Str ''s4'', Str ''s5''])],
      index = [Num 0, Num 1, Num 2]\<rparr>"

definition ex_v6 :: cell6_vars where
  "ex_v6 =
     \<lparr>genes = [Str ''Gad1'', Str ''Sst''], gene_indx = [2, 0],
      cell_mask = [True, False, True, True],
      df_anno = ex_df_anno,
      log1p = \<lparr>ncols = 2, arows = [[Num 250000, Num 250000], [Num 250000, Num 750000],
                                    [Num 1000000, Num 0]]\<rparr>\<rparr>"

definition ex_df_anno_final :: dataframe where
  "ex_df_anno_final =
     \<lparr>cols = [(''index'', [Num 0, Num 2, Num 3]),
              (''sample_name'', [Str ''v1'', Str ''a1'', Str ''a2'']),
              (''sample_id'', [Str ''id11'', Str ''id21'', Str ''id22'']),
              (''seq_batch'', [Str ''b1'', Str ''b3'', Str ''b3'']),
              (''sex'', [Str ''M'', Str ''F'', Str ''M'']),
              (''brain_hemisphere'', [Str ''L'', Str ''L'', Str ''R'']),
              (''brain_region'', [Str ''VISp'', Str ''ALM'', Str ''ALM'']),
              (''brain_subregion'', [Str ''L6'', Str ''L6'', Str ''L2'']),
              (''class'', [Str ''Glutamatergic'', Str ''Glutamatergic'', Str ''GABAergic'']),
              (''subclass'', [Str ''L6b'', Str ''L6 CT'', Str ''Vip'']),
              (''cluster'', [Str ''L6b Col8a1 Rprm'', Str ''L6 CT Nxph2 Sla'', Str ''Vip Gpc3'']),
              (''confusion_score'', [Num 0, Num 3, Num 4]),
              (''seq_name'', [Str ''s1'', Str ''s4'', Str ''s5''])],
      index = [Num 0, Num 1, Num 2]\<rparr>"

definition ex_sub_df :: dataframe where
  "ex_sub_df =
     \<lparr>cols = [(''sample_name'', [Str ''v1'', Str ''a1'', Str ''a2'']),
              (''sample_id'', [Str ''id11'', Str ''id21'', Str ''id22'']),
              (''seq_batch'', [Str ''b1'', Str ''b3'', Str ''b3'']),
              (''sex'', [Str ''M'', Str ''F'', Str ''M'']),
              (''brain_hemisphere'', [Str ''L'', Str ''L'', Str ''R'']),
              (''brain_region'', [Str ''VISp'', Str ''ALM'', Str ''ALM'']),
              (''brain_subregion'', [Str ''L6'', Str ''L6'', Str ''L2'']),
              (''class'', [Str ''Glutamatergic'', Str ''Glutamatergic'', Str ''GABAergic'']),
              (''subclass'', [Str ''L6b'', Str ''L6 CT'', Str ''Vip'']),
              (''cluster'', [Str ''L6b Col8a1 Rprm'', Str ''L6 CT Nxph2 Sla'', Str ''Vip Gpc3'']),
              (''confusion_score'', [Num 0, Num 3, Num 4])],
      index = [Num 0, Num 1, Num 2]\<rparr>"

definition ex_adata :: adata where
  "ex_adata =
     \<lparr>X = \<lparr>ncols = 2, arows = [[Num 250000, Num 250000], [Num 250000, Num 750000],
                                [Num 1000000, Num 0]]\<rparr>,
      obs = ex_sub_df\<lparr>index := [Str ''id11'', Str ''id21'', Str ''id22'']\<rparr>,
      var_names = [Str ''Gad1'', Str ''Sst'']\<rparr>"

definition ex_v8 :: cell8_vars where
  "ex_v8 = \<lparr>sub_df = ex_sub_df, adata_var = ex_adata\<rparr>"

definition ex_vars :: kernel_vars where
  "ex_vars = \<lparr>v3 = ex_v3, v4 = ex_v4, v5 = ex_v5, v6 = ex_v6,
              df_anno_final = ex_df_anno_final, v8 = ex_v8\<rparr>"

definition ex_reads :: trace where
  "ex_reads =
     [(GetPaths ''pyproject.toml'' ''10x_files'', None),
      (MakeDirs ''/repo/data'', None),
      (Download url ''/repo/data/mouse_10x.hdf5'' (Some ''hdf5 bytes''), None),
      (ReadCsv ''df_vis_exon'' ''/repo/data/mouse_VISp_2018-06-14_exon-matrix.csv'', None),
      (ReadCsv ''df_vis_anno'' ''/repo/data/mouse_VISp_2018-06-14_samples-columns.csv'', None),
      (ReadCsv ''df_alm_exon'' ''/repo/data/mouse_ALM_2018-06-14_exon-matrix.csv'', None),
      (ReadCsv ''df_alm_anno'' ''/repo/data/mouse_ALM_2018-06-14_samples-columns.csv'', None)]"

definition ex_trace :: trace where
  "ex_trace =
     ex_reads @
     [(ReadCsv ''ref_genes_df'' ''/repo/data/mouse_ALM_2018-06-14_genes-rows.csv'', None),
      (ReadCsv ''slc_gene_df'' ''/repo/data/genes.csv'', None),
      (LoadTree ''/repo/data/tree.csv'', None),
      (WriteH5ad ''/repo/data/out.h5ad'' ex_adata, None)]"

text \<open>
  More worlds: one where the download fails, one where the third table cannot be parsed,
  one where the directory cannot be made, one where the write raises, and one where a
  selected gene is not in the reference list.
\<close>

definition ex_world_no_download :: world where
  "ex_world_no_download =
     (ex_world used_kernel)\<lparr>download_file := (\<lambda>u p. Inl (Raised ''HTTPError''))\<rparr>"

definition ex_world_bad_csv :: world where
  "ex_world_bad_csv =
     (ex_world used_kernel)\<lparr>parse_csv := (\<lambda>content enc.
        if content = ''ALM counts'' then Inl (Raised ''ParserError'')
        else ex_parse_csv content enc)\<rparr>"

definition ex_world_no_makedirs :: world where
  "ex_world_no_makedirs =
     (ex_world used_kernel)\<lparr>makedirs := (\<lambda>p. Inl (Raised ''PermissionError''))\<rparr>"

definition ex_world_no_write :: world where
  "ex_world_no_write =
     (ex_world used_kernel)\<lparr>write_h5ad := (\<lambda>p a. Inl (Raised ''TypeError''))\<rparr>"

definition ex_slc_unmatched :: dataframe where
  "ex_slc_unmatched =
     \<lparr>cols = [(''genes'', [Str ''Gad1'', Str ''Pvalb'', Str ''Sst''])],
      index = [Num 0, Num 1, Num 2]\<rparr>"

definition ex_world_unmatched :: world where
  "ex_world_unmatched =
     (ex_world used_kernel)\<lparr>parse_csv := (\<lambda>content enc.
        if content = ''selected genes'' then Inr ex_slc_unmatched
        else ex_parse_csv content enc)\<rparr>"

section \<open>Properties of the job scripts\<close>

text \<open>The directives and the training command of each script, evaluated once.\<close>

lemma directives_A15:
  "directives script_A15 =
     [(''-N'', ''1''), (''--gpus'', ''v100:2''), (''-c'', ''16''), (''--mem'', ''32G''),
      (''-p'', ''celltypes''), (''-o'', ''mmidas-logs/mmidas_%j.out''),
      (''-e'', ''mmidas-logs/mmidas_%j.err''), (''--time'', ''24:00:00'')]"
  by code_simp

lemma directives_A1:
  "directives script_A1 =
     [(''-N'', ''1''), (''--gpus'', ''v100:1''), (''-c'', ''32''), (''--mem'', ''32G''),
      (''-p'', ''celltypes''), (''-o'', ''mmidas-logs/mmidas_%j.out''),
      (''-e'', ''mmidas-logs/mmidas_%j.err''), (''--time'', ''24:00:00'')]"
  by code_simp

lemma directives_fsdp_mnist:
  "directives script_fsdp_mnist =
     [(''-N'', ''1''), (''--gpus'', ''v100:4''), (''-c'', ''20''), (''--mem'', ''32G''),
      (''-p'', ''celltypes''), (''-o'', ''mnist-logs/mnist_%j.out''),
      (''-e'', ''mnist-logs/mnist_%j.err'')]"
  by code_simp

lemma python_runs_A15:
  "python_runs script_A15 =
     [[''train.py'', ''--n_arm'', ''15'', ''--use-wandb'', ''--use_dist_sampler'',
       ''--n_epoch'', ''150000'']]"
  by code_simp

lemma python_runs_A1:
  "python_runs script_A1 =
     [[''train.py'', ''--n_arm'', ''1'', ''--use-wandb'', ''--gpus'', ''1'',
       ''--n_epoch'', ''20000'']]"
  by code_simp

lemma python_runs_fsdp_mnist:
  "python_runs script_fsdp_mnist =
     [[''fsdp_mnist.py'', ''--epochs'', ''100'', ''--batch-size'', ''256'', ''--model'',
       ''deep'', ''--gpus'', ''4'', ''--num_workers'', ''4'', ''--sharding'', ''full'',
       ''--use_batchnorm'', ''--mixed'', ''none'']]"
  by code_simp

lemmas request_defs =
  gpu_request_def cpu_count_def memory_def time_limit_def time_directive_def
  node_count_def nat_of_string_def is_digit_def digit_val_def


text \<open>
  C5 (as stated, refuted): every training job script requests a GPU count, a CPU count,
  a memory amount and a wall-clock time limit. The MNIST script has no time directive,
  neither \<^verbatim>\<open>--time\<close> nor \<^verbatim>\<open>-t\<close>, so it does not request all four.
\<close>

theorem C5_mnist_no_time_limit:
  "time_directive script_fsdp_mnist = None \<and> \<not> list_all requests_all training_scripts"
  by (simp add: training_scripts_def requests_all_def request_defs
      directives_A15 directives_A1 directives_fsdp_mnist)

text \<open>
  C5 (amended): every training job script requests a GPU count, a CPU count and a memory
  amount through scheduler directives; the two \<^verbatim>\<open>train.py\<close> scripts also request a
  wall-clock time limit of 24 hours, and the MNIST script requests none.
\<close>

theorem C5_requested_resources:
  "gpu_request script_A15 = Some (''v100'', 2) \<and> cpu_count script_A15 = Some 16
   \<and> memory script_A15 = Some ''32G'' \<and> time_limit script_A15 = Some (24 * 3600)
   \<and> gpu_request script_A1 = Some (''v100'', 1) \<and> cpu_count script_A1 = Some 32
   \<and> memory script_A1 = Some ''32G'' \<and> time_limit script_A1 = Some (24 * 3600)
   \<and> gpu_request script_fsdp_mnist = Some (''v100'', 4)
   \<and> cpu_count script_fsdp_mnist = Some 20
   \<and> memory script_fsdp_mnist = Some ''32G''
   \<and> time_directive script_fsdp_mnist = None"
  by (simp add: request_defs directives_A15 directives_A1 directives_fsdp_mnist)

text \<open>
  C6: each wrapper script runs its training entry point exactly once, with the flags
  written in the script. The 15-arm script asks for 1 node, 2 v100 GPUs, 16 CPUs, 32G
  of memory and 24 hours, and runs \<^verbatim>\<open>train.py\<close> once with 15 arms and 150000 epochs;
  the MNIST script runs \<^verbatim>\<open>fsdp_mnist.py\<close> once with 100 epochs, batch size 256, model
  deep, 4 GPUs, 4 workers, full sharding, batch normalisation switched on and mixed
  precision none.
\<close>

theorem C6_training_invocations:
  "python_runs script_A15 =
     [[''train.py'', ''--n_arm'', ''15'', ''--use-wandb'', ''--use_dist_sampler'',
       ''--n_epoch'', ''150000'']]
   \<and> flag_value ''--n_arm'' (concat (python_runs script_A15)) = Some ''15''
   \<and> flag_value ''--n_epoch'' (concat (python_runs script_A15)) = Some ''150000''
   \<and> node_count script_A15 = Some 1 \<and> gpu_request script_A15 = Some (''v100'', 2)
   \<and> cpu_count script_A15 = Some 16 \<and> memory script_A15 = Some ''32G''
   \<and> time_limit script_A15 = Some (24 * 3600)
   \<and> python_runs script_A1 =
     [[''train.py'', ''--n_arm'', ''1'', ''--use-wandb'', ''--gpus'', ''1'',
       ''--n_epoch'', ''20000'']]
   \<and> python_runs script_fsdp_mnist =
     [[''fsdp_mnist.py'', ''--epochs'', ''100'', ''--batch-size'', ''256'', ''--model'',
       ''deep'', ''--gpus'', ''4'', ''--num_workers'', ''4'', ''--sharding'', ''full'',
       ''--use_batchnorm'', ''--mixed'', ''none'']]
   \<and> flag_value ''--epochs'' (concat (python_runs script_fsdp_mnist)) = Some ''100''
   \<and> flag_value ''--batch-size'' (concat (python_runs script_fsdp_mnist)) = Some ''256''
   \<and> flag_value ''--model'' (concat (python_runs script_fsdp_mnist)) = Some ''deep''
   \<and> flag_value ''--gpus'' (concat (python_runs script_fsdp_mnist)) = Some ''4''
   \<and> flag_value ''--num_workers'' (concat (python_runs script_fsdp_mnist)) = Some ''4''
   \<and> flag_value ''--sharding'' (concat (python_runs script_fsdp_mnist)) = Some ''full''
   \<and> List.member (concat (python_runs script_fsdp_mnist)) ''--use_batchnorm''
   \<and> flag_value ''--mixed'' (concat (python_runs script_fsdp_mnist)) = Some ''none''"
  by (simp add: request_defs directives_A15 python_runs_A15 python_runs_A1
      python_runs_fsdp_mnist)

section \<open>Properties of the notebook\<close>

subsection \<open>Taking a run apart\<close>

lemma bind_eE:
  assumes "bind_e m f = Inr y"
  obtains x where "m = Inr x" and "f x = Inr y"
  using assms by (cases m) (auto simp: bind_e_def)

lemma bind_e_Inl: "m = Inl e \<Longrightarrow> bind_e m f = Inl e"
  by (simp add: bind_e_def)

lemma bind_e_Inr: "m = Inr x \<Longrightarrow> bind_e m f = f x"
  by (simp add: bind_e_def)

lemma then_runE:
  assumes "then_run m f = (t, Inr y)"
  obtains t1 x t2 where "m = (t1, Inr x)" and "f x = (t2, Inr y)" and "t = t1 @ t2"
proof -
  obtain t1 r where m: "m = (t1, r)" by (cases m)
  show thesis
  proof (cases r)
    case (Inl e)
    with m assms show thesis by (simp add: then_run_def)
  next
    case (Inr x)
    obtain t2 r2 where f: "f x = (t2, r2)" by (cases "f x")
    with m Inr assms have "t = t1 @ t2" "r2 = Inr y" by (simp_all add: then_run_def)
    with m Inr f that show thesis by simp
  qed
qed

lemma pure_Inr: "pure r = (t, Inr x) \<longleftrightarrow> t = [] \<and> r = Inr x"
  by (auto simp: pure_def)

lemma notebook_success:
  assumes "notebook w = (t, Inr out)"
  obtains config data_path t2 t3 t5 t7 t8 where
    "cell2 w = (t2, Inr (config, data_path))"
    "cell3 w data_path = (t3, Inr (v3 out))"
    "cell4 (cell1 (kernel w)) w (v3 out) = Inr (v4 out)"
    "cell5 w config data_path = (t5, Inr (v5 out))"
    "cell6 (cell1 (kernel w)) (v4 out) (v5 out) = Inr (v6 out)"
    "cell7 w config data_path (df_anno (v6 out)) = (t7, Inr (df_anno_final out))"
    "cell8 w config data_path (v6 out) (df_anno_final out) = (t8, Inr (v8 out))"
    "t = t2 @ t3 @ t5 @ t7 @ t8"
proof -
  from assms obtain t2 cd ta where c2: "cell2 w = (t2, Inr cd)"
    and r2: "(case cd of (config, data_path) \<Rightarrow>
       then_run (cell3 w data_path) (\<lambda>c3.
       then_run (pure (cell4 (cell1 (kernel w)) w c3)) (\<lambda>c4.
       then_run (cell5 w config data_path) (\<lambda>c5.
       then_run (pure (cell6 (cell1 (kernel w)) c4 c5)) (\<lambda>c6.
       then_run (cell7 w config data_path (df_anno c6)) (\<lambda>da.
       then_run (cell8 w config data_path c6 da) (\<lambda>c8.
       pure (Inr \<lparr>v3 = c3, v4 = c4, v5 = c5, v6 = c6, df_anno_final = da,
                      v8 = c8\<rparr>)))))))) = (ta, Inr out)"
    and t: "t = t2 @ ta"
    unfolding notebook_def by (elim then_runE)
  obtain config data_path where cd: "cd = (config, data_path)" by (cases cd)
  from r2 [unfolded cd prod.case]
  obtain t3 c3 t4 c4 t5 c5 t6 c6 t7 da t8 c8 tb tc td te tf tg th where
    "cell3 w data_path = (t3, Inr c3)"
    "pure (cell4 (cell1 (kernel w)) w c3) = (t4, Inr c4)"
    "cell5 w config data_path = (t5, Inr c5)"
    "pure (cell6 (cell1 (kernel w)) c4 c5) = (t6, Inr c6)"
    "cell7 w config data_path (df_anno c6) = (t7, Inr da)"
    "cell8 w config data_path c6 da = (t8, Inr c8)"
    "pure (Inr \<lparr>v3 = c3, v4 = c4, v5 = c5, v6 = c6, df_anno_final = da, v8 = c8\<rparr>)
       = (th, Inr out)"
    "ta = t3 @ tb" "tb = t4 @ tc" "tc = t5 @ td" "td = t6 @ te" "te = t7 @ tf"
    "tf = t8 @ th"
    by (elim then_runE) blast
  with c2 cd t show thesis
    by (intro that [of t2 config data_path t3 t5 t7 t8]) (auto simp: pure_Inr)
qed


lemma cell4_success:
  assumes "cell4 g w c3 = Inr c4"
  obtains vis_class alm_class vis_sel alm_sel where
    "getitem (df_vis_anno c3) ''class'' = Inr vis_class"
    "getitem (df_alm_anno c3) ''class'' = Inr alm_class"
    "vis_neuron c4 = isin vis_class neuron_classes"
    "alm_neuron c4 = isin alm_class neuron_classes"
    "counts_T (common_type w) (df_vis_exon c3) (vis_neuron c4) = Inr (vis_counts c4)"
    "counts_T (common_type w) (df_alm_exon c3) (alm_neuron c4) = Inr (alm_counts c4)"
    "filter_rows (df_vis_anno c3) (vis_neuron c4) = Inr vis_sel"
    "filter_rows (df_alm_anno c3) (alm_neuron c4) = Inr alm_sel"
    "df_anno_merged c4 = concat_frames (common_type w) vis_sel alm_sel"
    "np g = Inr ()"
    "concatenate (common_type w) (vis_counts c4) (alm_counts c4) = Inr (total_count c4)"
    "logcpm w (total_count c4) 1000000 = Inr (logCPM c4)"
proof -
  from assms obtain vis_class alm_class vc ac vis_sel alm_sel tc lc where
    h: "getitem (df_vis_anno c3) ''class'' = Inr vis_class"
       "getitem (df_alm_anno c3) ''class'' = Inr alm_class"
       "counts_T (common_type w) (df_vis_exon c3) (isin vis_class neuron_classes) = Inr vc"
       "counts_T (common_type w) (df_alm_exon c3) (isin alm_class neuron_classes) = Inr ac"
       "filter_rows (df_vis_anno c3) (isin vis_class neuron_classes) = Inr vis_sel"
       "filter_rows (df_alm_anno c3) (isin alm_class neuron_classes) = Inr alm_sel"
       "np g = Inr ()"
       "concatenate (common_type w) vc ac = Inr tc"
       "logcpm w tc 1000000 = Inr lc"
    and c4: "c4 = \<lparr>vis_neuron = isin vis_class neuron_classes,
        alm_neuron = isin alm_class neuron_classes, vis_counts = vc, alm_counts = ac,
        df_anno_merged = concat_frames (common_type w) vis_sel alm_sel,
        total_count = tc, logCPM = lc\<rparr>"
    unfolding cell4_def by (elim bind_eE) auto
  show thesis
    by (rule that [of vis_class alm_class vis_sel alm_sel]) (simp_all add: h c4)
qed

lemma isin_neuron_classes:
  "isin vs neuron_classes = map (\<lambda>v. v = Str ''GABAergic'' \<or> v = Str ''Glutamatergic'') vs"
  by (auto simp: isin_def neuron_classes_def val_eq_def)

lemma bool_select_map: "bool_select m (map f xs) = map f (bool_select m xs)"
proof (induction m arbitrary: xs)
  case Nil
  then show ?case by (simp add: bool_select_def)
next
  case (Cons b m)
  then show ?case by (cases xs) (auto simp: bool_select_def)
qed

lemma bool_select_replicate:
  "bool_select m (replicate (length xs) v) = replicate (length (bool_select m xs)) v"
proof -
  have "bool_select m (replicate (length xs) v) = bool_select m (map (\<lambda>_. v) xs)"
    by (simp add: map_replicate_const)
  also have "\<dots> = map (\<lambda>_. v) (bool_select m xs)"
    by (rule bool_select_map)
  finally show ?thesis by (simp add: map_replicate_const)
qed

lemma filter_rows_success:
  assumes "filter_rows df m = Inr sel"
  shows "length m = nrows df"
    and "cols sel = map (\<lambda>(c, vs). (c, bool_select m vs)) (cols df)"
    and "index sel = bool_select m (index df)"
    and "map fst (cols sel) = map fst (cols df)"
    and "column_or_nan sel c = bool_select m (column_or_nan df c)"
proof -
  from assms show len: "length m = nrows df"
    and cs: "cols sel = map (\<lambda>(c, vs). (c, bool_select m vs)) (cols df)"
    and ix: "index sel = bool_select m (index df)"
    by (auto simp: filter_rows_def split: if_splits)
  from cs show "map fst (cols sel) = map fst (cols df)"
    by (simp add: case_prod_beta comp_def)
  have "map_of (cols sel) c = map_option (bool_select m) (map_of (cols df) c)"
    unfolding cs by (simp add: map_of_map)
  then show "column_or_nan sel c = bool_select m (column_or_nan df c)"
    by (cases "map_of (cols df) c")
       (simp_all add: column_or_nan_def nrows_def ix bool_select_replicate)
qed

lemma counts_T_success:
  assumes "counts_T cast df m = Inr a"
  shows "length m = length (drop 1 (cols df))"
    and "ncols a = nrows df"
    and "arows a = bool_select m
           (map (\<lambda>c. map (cast (map snd (cols df))) (snd c)) (drop 1 (cols df)))"
  using assms by (auto simp: counts_T_def split: if_splits)

lemma concatenate_success:
  assumes "concatenate cast a b = Inr c"
  shows "ncols a = ncols b" and "ncols c = ncols a"
    and "arows c = map (map (cast [concat (arows a), concat (arows b)])) (arows a @ arows b)"
  using assms by (auto simp: concatenate_def split: if_splits)

lemma map_e_success:
  "map_e f xs = Inr ys \<Longrightarrow> list_all2 (\<lambda>x y. f x = Inr y) xs ys"
proof (induction xs arbitrary: ys)
  case Nil
  then show ?case by simp
next
  case (Cons x xs)
  from Cons.prems obtain y ys' where "f x = Inr y" "map_e f xs = Inr ys'" "ys = y # ys'"
    by (auto elim!: bind_eE)
  with Cons.IH show ?case by simp
qed

text \<open>The normalization works on each row by itself.\<close>

lemma logcpm_success:
  assumes "logcpm w a scaler = Inr b"
  shows "ncols b = ncols a"
    and "list_all2 (\<lambda>r r'. logcpm_cell w r scaler = Inr r') (arows a) (arows b)"
proof -
  from assms obtain rows where
    r: "map_e (\<lambda>r. logcpm_cell w r scaler) (arows a) = Inr rows" and b: "b = a\<lparr>arows := rows\<rparr>"
    unfolding logcpm_def by (elim bind_eE) auto
  from b show "ncols b = ncols a" by simp
  from map_e_success [OF r] b
  show "list_all2 (\<lambda>r r'. logcpm_cell w r scaler = Inr r') (arows a) (arows b)"
    by simp
qed

text \<open>
  The merge of cell 4 in a complete run: the flags mark exactly the cells whose class is
  GABAergic or Glutamatergic; there is one flag per cell of the count table and per row of
  the annotation table; the merged counts are the count vectors of the flagged VISp cells
  followed by those of the flagged ALM cells, and every column of the merged annotation
  table is the flagged VISp entries followed by the flagged ALM entries, both converted
  entry by entry to a common type. The same flags select in both, and selection keeps
  the order (\<open>bool_select_positions\<close>).
\<close>

lemma complete_run_merge:
  assumes "snd (notebook w) = Inr out"
  shows "\<exists>vis_class alm_class.
     getitem (df_vis_anno (v3 out)) ''class'' = Inr vis_class \<and>
     getitem (df_alm_anno (v3 out)) ''class'' = Inr alm_class \<and>
     vis_neuron (v4 out) =
       map (\<lambda>v. v = Str ''GABAergic'' \<or> v = Str ''Glutamatergic'') vis_class \<and>
     alm_neuron (v4 out) =
       map (\<lambda>v. v = Str ''GABAergic'' \<or> v = Str ''Glutamatergic'') alm_class \<and>
     length (vis_neuron (v4 out)) = length (drop 1 (cols (df_vis_exon (v3 out)))) \<and>
     length (vis_neuron (v4 out)) = nrows (df_vis_anno (v3 out)) \<and>
     length (alm_neuron (v4 out)) = length (drop 1 (cols (df_alm_exon (v3 out)))) \<and>
     length (alm_neuron (v4 out)) = nrows (df_alm_anno (v3 out)) \<and>
     arows (total_count (v4 out)) =
       map (map (common_type w [concat (arows (vis_counts (v4 out))),
                                concat (arows (alm_counts (v4 out)))]))
         (bool_select (vis_neuron (v4 out))
            (map (\<lambda>c. map (common_type w (map snd (cols (df_vis_exon (v3 out))))) (snd c))
                 (drop 1 (cols (df_vis_exon (v3 out)))))
          @ bool_select (alm_neuron (v4 out))
            (map (\<lambda>c. map (common_type w (map snd (cols (df_alm_exon (v3 out))))) (snd c))
                 (drop 1 (cols (df_alm_exon (v3 out)))))) \<and>
     cols (df_anno_merged (v4 out)) =
       map (\<lambda>c. (c,
              map (common_type w
                     [bool_select (vis_neuron (v4 out)) (column_or_nan (df_vis_anno (v3 out)) c),
                      bool_select (alm_neuron (v4 out)) (column_or_nan (df_alm_anno (v3 out)) c)])
                (bool_select (vis_neuron (v4 out)) (column_or_nan (df_vis_anno (v3 out)) c)
                 @ bool_select (alm_neuron (v4 out)) (column_or_nan (df_alm_anno (v3 out)) c))))
           (merged_names (df_vis_anno (v3 out)) (df_alm_anno (v3 out)))"
proof -
  obtain t where "notebook w = (t, Inr out)"
    using assms by (cases "notebook w") simp
  then have "cell4 (cell1 (kernel w)) w (v3 out) = Inr (v4 out)"
    by (rule notebook_success)
  then obtain vis_class alm_class vis_sel alm_sel where
    h: "getitem (df_vis_anno (v3 out)) ''class'' = Inr vis_class"
       "getitem (df_alm_anno (v3 out)) ''class'' = Inr alm_class"
       "vis_neuron (v4 out) = isin vis_class neuron_classes"
       "alm_neuron (v4 out) = isin alm_class neuron_classes"
    and cv: "counts_T (common_type w) (df_vis_exon (v3 out)) (vis_neuron (v4 out))
              = Inr (vis_counts (v4 out))"
    and ca: "counts_T (common_type w) (df_alm_exon (v3 out)) (alm_neuron (v4 out))
              = Inr (alm_counts (v4 out))"
    and fv: "filter_rows (df_vis_anno (v3 out)) (vis_neuron (v4 out)) = Inr vis_sel"
    and fa: "filter_rows (df_alm_anno (v3 out)) (alm_neuron (v4 out)) = Inr alm_sel"
    and m: "df_anno_merged (v4 out) = concat_frames (common_type w) vis_sel alm_sel"
    and tc: "concatenate (common_type w) (vis_counts (v4 out)) (alm_counts (v4 out))
              = Inr (total_count (v4 out))"
    by (rule cell4_success)
  note lv = counts_T_success(1) [OF cv] and av = counts_T_success(3) [OF cv]
  note la = counts_T_success(1) [OF ca] and aa = counts_T_success(3) [OF ca]
  have rows: "arows (total_count (v4 out)) =
       map (map (common_type w [concat (arows (vis_counts (v4 out))),
                                concat (arows (alm_counts (v4 out)))]))
         (bool_select (vis_neuron (v4 out))
            (map (\<lambda>c. map (common_type w (map snd (cols (df_vis_exon (v3 out))))) (snd c))
                 (drop 1 (cols (df_vis_exon (v3 out)))))
          @ bool_select (alm_neuron (v4 out))
            (map (\<lambda>c. map (common_type w (map snd (cols (df_alm_exon (v3 out))))) (snd c))
                 (drop 1 (cols (df_alm_exon (v3 out))))))"
    unfolding concatenate_success(3) [OF tc] by (simp only: av aa)
  have merged: "cols (df_anno_merged (v4 out)) =
       map (\<lambda>c. (c,
              map (common_type w
                     [bool_select (vis_neuron (v4 out)) (column_or_nan (df_vis_anno (v3 out)) c),
                      bool_select (alm_neuron (v4 out)) (column_or_nan (df_alm_anno (v3 out)) c)])
                (bool_select (vis_neuron (v4 out)) (column_or_nan (df_vis_anno (v3 out)) c)
                 @ bool_select (alm_neuron (v4 out)) (column_or_nan (df_alm_anno (v3 out)) c))))
           (merged_names (df_vis_anno (v3 out)) (df_alm_anno (v3 out)))"
    unfolding m concat_frames_def merged_names_def
    by (simp add: filter_rows_success(4,5) [OF fv] filter_rows_success(4,5) [OF fa])
  show ?thesis
    using h lv la filter_rows_success(1) [OF fv] filter_rows_success(1) [OF fa] rows merged
    by (simp add: isin_neuron_classes)
qed

subsection \<open>Cells 6 to 8\<close>

lemma take_columns_success:
  assumes "take_columns a js = Inr b"
  shows "list_all (\<lambda>j. j < ncols a) js"
    and "ncols b = length js"
    and "arows b = map (\<lambda>r. map (\<lambda>j. r ! j) js) (arows a)"
  using assms by (auto simp: take_columns_def split: if_splits)

lemma take_rows_success:
  assumes "take_rows a m = Inr b"
  shows "length m = length (arows a)"
    and "ncols b = ncols a"
    and "arows b = bool_select m (arows a)"
  using assms by (auto simp: take_rows_def split: if_splits)

lemma reset_index_success:
  assumes "reset_index df = Inr df'"
  shows "\<exists>name. (name = ''index'' \<or> name = ''level_0'') \<and> cols df' = (name, index df) # cols df"
    and "index df' = range_index (nrows df)"
  using assms by (auto simp: reset_index_def Let_def split: if_splits)

lemma cell6_success:
  assumes "cell6 g c4 c5 = Inr c6"
  obtains selected cluster kept where
    "getattr (slc_gene_df c5) ''genes'' = Inr (genes c6)"
    "map_e (gene_index g (ref_genes_df c5)) (genes c6) = Inr (gene_indx c6)"
    "take_columns (logCPM c4) (gene_indx c6) = Inr selected"
    "getitem (df_anno_merged c4) ''cluster'' = Inr cluster"
    "cell_mask c6 = map keep_cluster cluster"
    "filter_rows (df_anno_merged c4) (cell_mask c6) = Inr kept"
    "reset_index kept = Inr (df_anno c6)"
    "take_rows selected (cell_mask c6) = Inr (log1p c6)"
proof -
  from assms obtain gs gi selected cluster kept da l where
    h: "getattr (slc_gene_df c5) ''genes'' = Inr gs"
       "map_e (gene_index g (ref_genes_df c5)) gs = Inr gi"
       "take_columns (logCPM c4) gi = Inr selected"
       "getitem (df_anno_merged c4) ''cluster'' = Inr cluster"
       "filter_rows (df_anno_merged c4) (map keep_cluster cluster) = Inr kept"
       "reset_index kept = Inr da"
       "take_rows selected (map keep_cluster cluster) = Inr l"
    and c6: "c6 = \<lparr>genes = gs, gene_indx = gi, cell_mask = map keep_cluster cluster,
        df_anno = da, log1p = l\<rparr>"
    unfolding cell6_def by (elim bind_eE) auto
  show thesis
    by (rule that [of selected cluster kept]) (simp_all add: h c6)
qed

lemma build_adata_success:
  assumes "build_adata gs l da = Inr c8"
  obtains sel ids where
    "select_columns da obs_columns = Inr sel"
    "sub_df c8 = da\<lparr>cols := sel\<rparr>"
    "length (arows l) = nrows da"
    "length gs = ncols l"
    "getattr (sub_df c8) ''sample_id'' = Inr ids"
    "length ids = nrows da"
    "adata_var c8 = \<lparr>X = l, obs = da\<lparr>cols := sel, index := ids\<rparr>, var_names = gs\<rparr>"
proof -
  from assms obtain sd a0 a1 ids a2 where
    h: "getitem_list da obs_columns = Inr sd"
       "AnnData (csr_matrix l) sd = Inr a0"
       "set_var_names a0 gs = Inr a1"
       "getattr sd ''sample_id'' = Inr ids"
       "set_obs_names a1 ids = Inr a2"
    and c8: "c8 = \<lparr>sub_df = sd, adata_var = a2\<rparr>"
    unfolding build_adata_def by (elim bind_eE) auto
  from h(1) obtain sel where sel: "select_columns da obs_columns = Inr sel"
    and sd: "sd = da\<lparr>cols := sel\<rparr>"
    unfolding getitem_list_def by (elim bind_eE) auto
  from h(2) have a0: "a0 = \<lparr>X = l, obs = sd, var_names = range_index (ncols l)\<rparr>"
    and n: "length (arows l) = nrows sd"
    by (auto simp: AnnData_def csr_matrix_def split: if_splits)
  from h(3) a0 have a1: "a1 = \<lparr>X = l, obs = sd, var_names = gs\<rparr>" and g: "length gs = ncols l"
    by (auto simp: set_var_names_def split: if_splits)
  from h(5) a1 have a2: "a2 = \<lparr>X = l, obs = sd\<lparr>index := ids\<rparr>, var_names = gs\<rparr>"
    and i: "length ids = nrows sd"
    by (auto simp: set_obs_names_def split: if_splits)
  have nr: "nrows sd = nrows da" by (simp add: sd nrows_def)
  show thesis
    by (rule that [of sel ids]) (use sel sd n g h(4) i a2 c8 nr in simp_all)
qed

lemma cell8_success:
  assumes "cell8 w config data_path c6 da = (t, Inr c8)"
  obtains f where
    "build_adata (genes c6) (log1p c6) da = Inr c8"
    "cfg_get config sub_file ''anndata_file'' = Inr f"
    "write_h5ad w (path_join data_path f) (adata_var c8) = Inr ()"
    "t = [(WriteH5ad (path_join data_path f) (adata_var c8), None)]"
  using assms unfolding cell8_def
  by (elim then_runE) (auto simp: pure_Inr call_def raised_def)

lemma cell7_success:
  assumes "cell7 w config data_path da = (t, Inr da')"
  obtains f d1 where
    "cfg_get config sub_file ''htree_file'' = Inr f"
    "load_tree w (disk w data_path) (path_join data_path f) = Inr ()"
    "t = [(LoadTree (path_join data_path f), None)]"
    "assign_where da ''cluster'' (Str ''L6b VISp Col8a1 Rprm'') (Str ''L6b Col8a1 Rprm'') = Inr d1"
    "assign_where d1 ''cluster'' (Str ''L6 CT ALM Nxph2 Sla'') (Str ''L6 CT Nxph2 Sla'') = Inr da'"
  using assms unfolding cell7_def rename_statement_def
  by (elim then_runE) (auto simp: pure_Inr call_def raised_def elim!: bind_eE)

subsection \<open>What is written: the expression matrix\<close>

lemma cell2_no_write:
  assumes "cell2 w = (t, r)"
  shows "serialized t = []" and "attempted t = []"
  using assms
  by (auto simp: cell2_def then_run_def call_def pure_def call_download_def
      split: sum.splits prod.splits)

lemma cell3_no_write:
  assumes "cell3 w data_path = (t, r)"
  shows "serialized t = []" and "attempted t = []"
  using assms
  by (auto simp: cell3_def then_run_def call_def pure_def call_read_csv_def
      split: sum.splits prod.splits)

lemma cell5_no_write:
  assumes "cell5 w config data_path = (t, r)"
  shows "serialized t = []" and "attempted t = []"
  using assms
  by (auto simp: cell5_def then_run_def call_def pure_def call_read_csv_def
      split: sum.splits prod.splits)

lemma cell7_no_write:
  assumes "cell7 w config data_path da = (t, r)"
  shows "serialized t = []" and "attempted t = []"
  using assms
  by (auto simp: cell7_def then_run_def call_def pure_def
      split: sum.splits prod.splits)

lemma serialized_append: "serialized (t @ u) = serialized t @ serialized u"
  by (induction t rule: serialized.induct) simp_all

lemma attempted_append: "attempted (t @ u) = attempted t @ attempted u"
  by (induction t rule: attempted.induct) simp_all

lemma notebook_serialized:
  assumes "notebook w = (t, Inr out)"
  shows "\<exists>path. serialized t = [(path, adata_var (v8 out))]"
proof -
  from assms obtain config data_path t2 t3 t5 t7 t8 where
    c: "cell2 w = (t2, Inr (config, data_path))"
       "cell3 w data_path = (t3, Inr (v3 out))"
       "cell5 w config data_path = (t5, Inr (v5 out))"
       "cell7 w config data_path (df_anno (v6 out)) = (t7, Inr (df_anno_final out))"
    and c8: "cell8 w config data_path (v6 out) (df_anno_final out) = (t8, Inr (v8 out))"
    and t: "t = t2 @ t3 @ t5 @ t7 @ t8"
    by (rule notebook_success)
  from c8 obtain f where "t8 = [(WriteH5ad (path_join data_path f) (adata_var (v8 out)), None)]"
    by (rule cell8_success)
  then show ?thesis
    by (simp add: t serialized_append cell2_no_write [OF c(1)] cell3_no_write [OF c(2)]
        cell5_no_write [OF c(3)] cell7_no_write [OF c(4)])
qed

lemma gene_index_success:
  assumes "gene_index g ref gg = Inr i"
  shows "np g = Inr ()"
    and "\<exists>symbols. getattr ref ''gene_symbol'' = Inr symbols \<and> where_first symbols gg = Some i"
  using assms unfolding gene_index_def
  by (auto elim!: bind_eE split: option.splits)

lemma ndarray_eqI: "ncols a = n \<Longrightarrow> arows a = rs \<Longrightarrow> (a::ndarray) = \<lparr>ncols = n, arows = rs\<rparr>"
  by (cases a) simp

text \<open>
  The matrix written by a complete run: the normalization (scaler \<open>10\<^sup>6\<close>) is applied to
  the whole merged count matrix; the matrix written is that result restricted to the
  columns of the selected genes, each located by its first occurrence in the reference
  list, in the order of the selected-gene table, and then to the rows of the kept cells.
\<close>

lemma complete_run_matrix:
  assumes "snd (notebook w) = Inr out"
  shows "logcpm w (total_count (v4 out)) 1000000 = Inr (logCPM (v4 out))
    \<and> getattr (slc_gene_df (v5 out)) ''genes'' = Inr (genes (v6 out))
    \<and> list_all2 (\<lambda>g j. \<exists>symbols.
          getattr (ref_genes_df (v5 out)) ''gene_symbol'' = Inr symbols
          \<and> where_first symbols g = Some j)
        (genes (v6 out)) (gene_indx (v6 out))
    \<and> list_all (\<lambda>j. j < ncols (logCPM (v4 out))) (gene_indx (v6 out))
    \<and> length (cell_mask (v6 out)) = length (arows (logCPM (v4 out)))
    \<and> X (adata_var (v8 out)) =
        \<lparr>ncols = length (gene_indx (v6 out)),
         arows = bool_select (cell_mask (v6 out))
                   (map (\<lambda>r. map (\<lambda>j. r ! j) (gene_indx (v6 out)))
                        (arows (logCPM (v4 out))))\<rparr>
    \<and> var_names (adata_var (v8 out)) = genes (v6 out)
    \<and> (\<exists>path. serialized (fst (notebook w)) = [(path, adata_var (v8 out))])"
proof -
  obtain t where run: "notebook w = (t, Inr out)"
    using assms by (cases "notebook w") simp
  then obtain config data_path t8 where
    c4: "cell4 (cell1 (kernel w)) w (v3 out) = Inr (v4 out)"
    and c6: "cell6 (cell1 (kernel w)) (v4 out) (v5 out) = Inr (v6 out)"
    and c8: "cell8 w config data_path (v6 out) (df_anno_final out) = (t8, Inr (v8 out))"
    by (rule notebook_success)
  from c4 have norm: "logcpm w (total_count (v4 out)) 1000000 = Inr (logCPM (v4 out))"
    by (rule cell4_success)
  from c6 obtain selected where
    gs: "getattr (slc_gene_df (v5 out)) ''genes'' = Inr (genes (v6 out))"
    and gi: "map_e (gene_index (cell1 (kernel w)) (ref_genes_df (v5 out))) (genes (v6 out))
               = Inr (gene_indx (v6 out))"
    and tc: "take_columns (logCPM (v4 out)) (gene_indx (v6 out)) = Inr selected"
    and tr: "take_rows selected (cell_mask (v6 out)) = Inr (log1p (v6 out))"
    by (rule cell6_success)
  have idx: "list_all2 (\<lambda>g j. \<exists>symbols.
          getattr (ref_genes_df (v5 out)) ''gene_symbol'' = Inr symbols
          \<and> where_first symbols g = Some j)
        (genes (v6 out)) (gene_indx (v6 out))"
    using map_e_success [OF gi]
    by (rule list_all2_mono) (rule gene_index_success(2))
  from c8 have "build_adata (genes (v6 out)) (log1p (v6 out)) (df_anno_final out) = Inr (v8 out)"
    by (rule cell8_success)
  then have x: "X (adata_var (v8 out)) = log1p (v6 out)"
    and vn: "var_names (adata_var (v8 out)) = genes (v6 out)"
    by (auto elim!: build_adata_success)
  have "log1p (v6 out) =
        \<lparr>ncols = length (gene_indx (v6 out)),
         arows = bool_select (cell_mask (v6 out))
                   (map (\<lambda>r. map (\<lambda>j. r ! j) (gene_indx (v6 out)))
                        (arows (logCPM (v4 out))))\<rparr>"
    by (rule ndarray_eqI)
       (simp_all add: take_rows_success(2,3) [OF tr] take_columns_success(2,3) [OF tc])
  moreover have "length (cell_mask (v6 out)) = length (arows (logCPM (v4 out)))"
    by (simp add: take_rows_success(1) [OF tr] take_columns_success(3) [OF tc])
  ultimately show ?thesis
    using norm gs idx take_columns_success(1) [OF tc] x vn notebook_serialized [OF run] run
    by simp
qed

subsection \<open>What is written: the metadata\<close>

lemma select_columns_success:
  assumes "select_columns df cs = Inr sel" and "set cs \<subseteq> S"
  shows "list_all2 (\<lambda>c col. c \<in> S \<and> fst col = c \<and> map_of (cols df) c = Some (snd col)) cs sel"
  using assms
proof (induction cs arbitrary: sel)
  case Nil
  then show ?case by simp
next
  case (Cons c cs)
  from Cons.prems(1) obtain vs rest where
    "map_of (cols df) c = Some vs" "select_columns df cs = Inr rest" "sel = (c, vs) # rest"
    by (auto split: option.splits elim!: bind_eE)
  with Cons.IH [of rest] Cons.prems(2) show ?case by simp
qed

lemma map_of_map_keyed:
  "map_of (map (\<lambda>(k, v). (k, h k v)) xs) k = map_option (h k) (map_of xs k)"
  by (induction xs) auto

lemma assign_where_success:
  assumes "assign_where df c old new = Inr df'"
  shows "cols df' = map (\<lambda>(c', vs).
            (c', if c' = c then map (\<lambda>v. if val_eq v old then new else v) vs else vs)) (cols df)"
    and "index df' = index df"
  using assms unfolding assign_where_def by (auto elim!: bind_eE)

lemma bool_select_filter: "bool_select (map P xs) xs = filter P xs"
  by (induction xs) (auto simp: bool_select_def)

lemma keep_cluster_iff:
  "keep_cluster v \<longleftrightarrow>
     v \<noteq> Str ''Low Quality'' \<and> v \<noteq> Str ''CR Lhx5'' \<and> v \<noteq> Str ''Meis2 Adamts19''"
  by (auto simp: keep_cluster_def val_eq_def)

lemma obs_columns_not_index:
  "c \<in> set obs_columns \<Longrightarrow> c \<noteq> ''index'' \<and> c \<noteq> ''level_0''"
  by (auto simp: obs_columns_def)

lemma list_all2_map_of:
  assumes "list_all2 (\<lambda>c col. fst col = c \<and> P c (snd col)) cs sel" and "c0 \<in> set cs"
  shows "\<exists>v. map_of sel c0 = Some v \<and> P c0 v"
  using assms by (induction rule: list_all2_induct) auto

text \<open>The columns selected in cell 8, traced back to the merged table of cell 4.\<close>

lemma obs_columns_from_merged:
  assumes "snd (notebook w) = Inr out"
  shows "list_all2 (\<lambda>c col. fst col = c \<and>
            (\<exists>vs. map_of (cols (df_anno_merged (v4 out))) c = Some vs \<and>
               snd col =
                 (if c = ''cluster''
                  then map (\<lambda>v. if v = Str ''L6b VISp Col8a1 Rprm'' then Str ''L6b Col8a1 Rprm''
                                  else if v = Str ''L6 CT ALM Nxph2 Sla'' then Str ''L6 CT Nxph2 Sla''
                                  else v)
                           (bool_select (cell_mask (v6 out)) vs)
                  else bool_select (cell_mask (v6 out)) vs)))
          obs_columns (cols (obs (adata_var (v8 out))))"
proof -
  obtain t where run: "notebook w = (t, Inr out)"
    using assms by (cases "notebook w") simp
  then obtain config data_path t7 t8 where
    c6: "cell6 (cell1 (kernel w)) (v4 out) (v5 out) = Inr (v6 out)"
    and c7: "cell7 w config data_path (df_anno (v6 out)) = (t7, Inr (df_anno_final out))"
    and c8: "cell8 w config data_path (v6 out) (df_anno_final out) = (t8, Inr (v8 out))"
    by (rule notebook_success)
  from c6 obtain kept where
    fr: "filter_rows (df_anno_merged (v4 out)) (cell_mask (v6 out)) = Inr kept"
    and ri: "reset_index kept = Inr (df_anno (v6 out))"
    by (rule cell6_success)
  from c7 obtain d1 where
    a1: "assign_where (df_anno (v6 out)) ''cluster'' (Str ''L6b VISp Col8a1 Rprm'')
           (Str ''L6b Col8a1 Rprm'') = Inr d1"
    and a2: "assign_where d1 ''cluster'' (Str ''L6 CT ALM Nxph2 Sla'')
           (Str ''L6 CT Nxph2 Sla'') = Inr (df_anno_final out)"
    by (rule cell7_success)
  from c8 have "build_adata (genes (v6 out)) (log1p (v6 out)) (df_anno_final out) = Inr (v8 out)"
    by (rule cell8_success)
  then obtain sel where
    sel: "select_columns (df_anno_final out) obs_columns = Inr sel"
    and obs: "cols (obs (adata_var (v8 out))) = sel"
    by (auto elim!: build_adata_success)
  from reset_index_success(1) [OF ri] obtain name where
    name: "name = ''index'' \<or> name = ''level_0''"
    and da: "cols (df_anno (v6 out)) = (name, index kept) # cols kept"
    by blast
  have look: "map_of (cols (df_anno_final out)) c =
      map_option (\<lambda>vs. if c = ''cluster''
                  then map (\<lambda>v. if v = Str ''L6b VISp Col8a1 Rprm'' then Str ''L6b Col8a1 Rprm''
                                  else if v = Str ''L6 CT ALM Nxph2 Sla'' then Str ''L6 CT Nxph2 Sla''
                                  else v)
                           (bool_select (cell_mask (v6 out)) vs)
                  else bool_select (cell_mask (v6 out)) vs)
        (map_of (cols (df_anno_merged (v4 out))) c)"
    if "c \<in> set obs_columns" for c
  proof -
    from that name have "c \<noteq> name"
      using obs_columns_not_index by blast
    then have "map_of (cols (df_anno (v6 out))) c =
        map_option (bool_select (cell_mask (v6 out))) (map_of (cols (df_anno_merged (v4 out))) c)"
      by (simp add: da filter_rows_success(2) [OF fr] map_of_map)
    then show ?thesis
      unfolding assign_where_success(1) [OF a2] assign_where_success(1) [OF a1] map_of_map_keyed
      by (cases "map_of (cols (df_anno_merged (v4 out))) c") (auto simp: val_eq_def)
  qed
  have "list_all2 (\<lambda>c col. c \<in> set obs_columns \<and> fst col = c \<and>
          map_of (cols (df_anno_final out)) c = Some (snd col)) obs_columns sel"
    using sel by (rule select_columns_success) simp
  then show ?thesis
    unfolding obs
  proof (rule list_all2_mono)
    fix c col
    assume "c \<in> set obs_columns \<and> fst col = c \<and>
      map_of (cols (df_anno_final out)) c = Some (snd col)"
    then have c: "c \<in> set obs_columns" and f: "fst col = c"
      and m: "map_of (cols (df_anno_final out)) c = Some (snd col)"
      by simp_all
    from m obtain vs where "map_of (cols (df_anno_merged (v4 out))) c = Some vs"
      and "snd col = (if c = ''cluster''
                  then map (\<lambda>v. if v = Str ''L6b VISp Col8a1 Rprm'' then Str ''L6b Col8a1 Rprm''
                                  else if v = Str ''L6 CT ALM Nxph2 Sla'' then Str ''L6 CT Nxph2 Sla''
                                  else v)
                           (bool_select (cell_mask (v6 out)) vs)
                  else bool_select (cell_mask (v6 out)) vs)"
      unfolding look [OF c] by (cases "map_of (cols (df_anno_merged (v4 out))) c") auto
    with f show "fst col = c \<and>
            (\<exists>vs. map_of (cols (df_anno_merged (v4 out))) c = Some vs \<and>
               snd col =
                 (if c = ''cluster''
                  then map (\<lambda>v. if v = Str ''L6b VISp Col8a1 Rprm'' then Str ''L6b Col8a1 Rprm''
                                  else if v = Str ''L6 CT ALM Nxph2 Sla'' then Str ''L6 CT Nxph2 Sla''
                                  else v)
                           (bool_select (cell_mask (v6 out)) vs)
                  else bool_select (cell_mask (v6 out)) vs))"
      by blast
  qed
qed

text \<open>
  The mask of a complete run: computed from the cluster column of the merged table, it
  selects the rows of the expression matrix and the entries of every metadata column; no
  cluster label of the output is Low Quality, CR Lhx5 or Meis2 Adamts19.
\<close>

lemma complete_run_mask:
  assumes "snd (notebook w) = Inr out"
  shows "\<exists>cluster.
      getitem (df_anno_merged (v4 out)) ''cluster'' = Inr cluster
    \<and> cell_mask (v6 out) =
        map (\<lambda>v. v \<noteq> Str ''Low Quality'' \<and> v \<noteq> Str ''CR Lhx5'' \<and> v \<noteq> Str ''Meis2 Adamts19'')
            cluster
    \<and> length (cell_mask (v6 out)) = nrows (df_anno_merged (v4 out))
    \<and> length (cell_mask (v6 out)) = length (arows (logCPM (v4 out)))
    \<and> arows (X (adata_var (v8 out))) =
        bool_select (cell_mask (v6 out))
          (map (\<lambda>r. map (\<lambda>j. r ! j) (gene_indx (v6 out))) (arows (logCPM (v4 out))))
    \<and> list_all2 (\<lambda>c col. fst col = c \<and>
            (\<exists>vs. map_of (cols (df_anno_merged (v4 out))) c = Some vs \<and>
               snd col =
                 (if c = ''cluster''
                  then map (\<lambda>v. if v = Str ''L6b VISp Col8a1 Rprm'' then Str ''L6b Col8a1 Rprm''
                                  else if v = Str ''L6 CT ALM Nxph2 Sla'' then Str ''L6 CT Nxph2 Sla''
                                  else v)
                           (bool_select (cell_mask (v6 out)) vs)
                  else bool_select (cell_mask (v6 out)) vs)))
          obs_columns (cols (obs (adata_var (v8 out))))
    \<and> (\<exists>kept. getitem (obs (adata_var (v8 out))) ''cluster'' = Inr kept
          \<and> Str ''Low Quality'' \<notin> set kept \<and> Str ''CR Lhx5'' \<notin> set kept
          \<and> Str ''Meis2 Adamts19'' \<notin> set kept)
    \<and> length (arows (X (adata_var (v8 out)))) = nrows (obs (adata_var (v8 out)))
    \<and> (\<exists>path. serialized (fst (notebook w)) = [(path, adata_var (v8 out))])"
proof -
  obtain t where run: "notebook w = (t, Inr out)"
    using assms by (cases "notebook w") simp
  then obtain config data_path t8 where
    c6: "cell6 (cell1 (kernel w)) (v4 out) (v5 out) = Inr (v6 out)"
    and c8: "cell8 w config data_path (v6 out) (df_anno_final out) = (t8, Inr (v8 out))"
    by (rule notebook_success)
  from c6 obtain selected cluster kept where
    tc: "take_columns (logCPM (v4 out)) (gene_indx (v6 out)) = Inr selected"
    and cl: "getitem (df_anno_merged (v4 out)) ''cluster'' = Inr cluster"
    and mask: "cell_mask (v6 out) = map keep_cluster cluster"
    and fr: "filter_rows (df_anno_merged (v4 out)) (cell_mask (v6 out)) = Inr kept"
    and tr: "take_rows selected (cell_mask (v6 out)) = Inr (log1p (v6 out))"
    by (rule cell6_success)
  from c8 have "build_adata (genes (v6 out)) (log1p (v6 out)) (df_anno_final out) = Inr (v8 out)"
    by (rule cell8_success)
  then obtain sel ids where
    x: "X (adata_var (v8 out)) = log1p (v6 out)"
    and n: "length (arows (log1p (v6 out))) = nrows (df_anno_final out)"
    and i: "length ids = nrows (df_anno_final out)"
    and obs: "obs (adata_var (v8 out)) = (df_anno_final out)\<lparr>cols := sel, index := ids\<rparr>"
    by (auto elim!: build_adata_success)
  have mask': "cell_mask (v6 out) =
        map (\<lambda>v. v \<noteq> Str ''Low Quality'' \<and> v \<noteq> Str ''CR Lhx5'' \<and> v \<noteq> Str ''Meis2 Adamts19'')
            cluster"
    unfolding mask by (simp add: keep_cluster_iff)
  have rows: "arows (X (adata_var (v8 out))) =
        bool_select (cell_mask (v6 out))
          (map (\<lambda>r. map (\<lambda>j. r ! j) (gene_indx (v6 out))) (arows (logCPM (v4 out))))"
    by (simp add: x take_rows_success(3) [OF tr] take_columns_success(3) [OF tc])
  have len: "length (cell_mask (v6 out)) = length (arows (logCPM (v4 out)))"
    by (simp add: take_rows_success(1) [OF tr] take_columns_success(3) [OF tc])
  note cols = obs_columns_from_merged [OF assms]
  have "''cluster'' \<in> set obs_columns"
    by (simp add: obs_columns_def)
  with cols obtain col where
    col: "map_of (cols (obs (adata_var (v8 out)))) ''cluster'' = Some col"
    and "\<exists>vs. map_of (cols (df_anno_merged (v4 out))) ''cluster'' = Some vs \<and>
           col = map (\<lambda>v. if v = Str ''L6b VISp Col8a1 Rprm'' then Str ''L6b Col8a1 Rprm''
                          else if v = Str ''L6 CT ALM Nxph2 Sla'' then Str ''L6 CT Nxph2 Sla''
                          else v)
                   (bool_select (cell_mask (v6 out)) vs)"
    using list_all2_map_of [OF cols, of "''cluster''"] by auto
  with cl have "col = map (\<lambda>v. if v = Str ''L6b VISp Col8a1 Rprm'' then Str ''L6b Col8a1 Rprm''
                          else if v = Str ''L6 CT ALM Nxph2 Sla'' then Str ''L6 CT Nxph2 Sla''
                          else v) (filter keep_cluster cluster)"
    by (auto simp: getitem_def mask bool_select_filter split: option.splits)
  then have excl: "Str ''Low Quality'' \<notin> set col \<and> Str ''CR Lhx5'' \<notin> set col
      \<and> Str ''Meis2 Adamts19'' \<notin> set col"
    by (auto simp: keep_cluster_iff)
  have "length (arows (X (adata_var (v8 out)))) = nrows (obs (adata_var (v8 out)))"
    by (simp add: x n obs nrows_def i)
  with cl mask' filter_rows_success(1) [OF fr] len rows cols col excl
    notebook_serialized [OF run] run
  show ?thesis
    by (simp add: getitem_def)
qed

subsection \<open>Row by row\<close>

lemma list_all2_bool_select:
  "list_all2 P xs ys \<Longrightarrow> list_all2 P (bool_select m xs) (bool_select m ys)"
proof (induction m arbitrary: xs ys)
  case Nil
  then show ?case by (simp add: bool_select_def)
next
  case (Cons b m)
  show ?case
  proof (cases xs)
    case Nil
    with Cons.prems show ?thesis by (simp add: bool_select_def)
  next
    case (Cons x xs')
    with Cons.prems obtain y ys' where ys: "ys = y # ys'" and p: "P x y" "list_all2 P xs' ys'"
      by (cases ys) auto
    from Cons.IH [OF p(2)] p(1) show ?thesis
      by (simp add: Cons ys bool_select_def)
  qed
qed

lemma map_of_named:
  "c \<in> set names \<Longrightarrow> map_of (map (\<lambda>c. (c, f c)) names) c = Some (f c)"
  by (induction names) auto

text \<open>
  In a complete run, row \<open>i\<close> of the matrix written and entry \<open>i\<close> of every metadata
  column come from the same cell. Both are selected by the same three masks, the class
  flags of the two regions and the cluster mask, from the cells in the order of the
  tables read; a row of the matrix is the normalization of that cell's counts (converted
  entry by entry), at the positions of the selected genes; a metadata entry is that
  cell's annotation entry, converted to the column's common type, the two cluster names
  replaced.
\<close>

lemma complete_run_rows_correspond:
  assumes "snd (notebook w) = Inr out"
  shows "\<exists>f_vis f_alm.
      list_all2 (\<lambda>counts x. \<exists>r. logcpm_cell w counts 1000000 = Inr r
                     \<and> x = map (\<lambda>j. r ! j) (gene_indx (v6 out)))
        (bool_select (cell_mask (v6 out))
           (bool_select (vis_neuron (v4 out))
              (map (\<lambda>c. map f_vis (snd c)) (drop 1 (cols (df_vis_exon (v3 out)))))
            @ bool_select (alm_neuron (v4 out))
              (map (\<lambda>c. map f_alm (snd c)) (drop 1 (cols (df_alm_exon (v3 out)))))))
        (arows (X (adata_var (v8 out))))"
    and "list_all2 (\<lambda>c col. fst col = c \<and>
           snd col =
             map (\<lambda>v. if c = ''cluster''
                       then (if v = Str ''L6b VISp Col8a1 Rprm'' then Str ''L6b Col8a1 Rprm''
                             else if v = Str ''L6 CT ALM Nxph2 Sla'' then Str ''L6 CT Nxph2 Sla''
                             else v)
                       else v)
               (bool_select (cell_mask (v6 out))
                  (map (common_type w
                     [bool_select (vis_neuron (v4 out)) (column_or_nan (df_vis_anno (v3 out)) c),
                      bool_select (alm_neuron (v4 out)) (column_or_nan (df_alm_anno (v3 out)) c)])
                    (bool_select (vis_neuron (v4 out)) (column_or_nan (df_vis_anno (v3 out)) c)
                     @ bool_select (alm_neuron (v4 out))
                         (column_or_nan (df_alm_anno (v3 out)) c)))))
          obs_columns (cols (obs (adata_var (v8 out))))"
proof -
  from complete_run_merge [OF assms] have
    rows: "arows (total_count (v4 out)) =
       map (map (common_type w [concat (arows (vis_counts (v4 out))),
                                concat (arows (alm_counts (v4 out)))]))
         (bool_select (vis_neuron (v4 out))
            (map (\<lambda>c. map (common_type w (map snd (cols (df_vis_exon (v3 out))))) (snd c))
                 (drop 1 (cols (df_vis_exon (v3 out)))))
          @ bool_select (alm_neuron (v4 out))
            (map (\<lambda>c. map (common_type w (map snd (cols (df_alm_exon (v3 out))))) (snd c))
                 (drop 1 (cols (df_alm_exon (v3 out))))))"
    and merged: "cols (df_anno_merged (v4 out)) =
       map (\<lambda>c. (c,
              map (common_type w
                     [bool_select (vis_neuron (v4 out)) (column_or_nan (df_vis_anno (v3 out)) c),
                      bool_select (alm_neuron (v4 out)) (column_or_nan (df_alm_anno (v3 out)) c)])
                (bool_select (vis_neuron (v4 out)) (column_or_nan (df_vis_anno (v3 out)) c)
                 @ bool_select (alm_neuron (v4 out)) (column_or_nan (df_alm_anno (v3 out)) c))))
           (merged_names (df_vis_anno (v3 out)) (df_alm_anno (v3 out)))"
    by blast+
  define cc where "cc = common_type w [concat (arows (vis_counts (v4 out))),
                                concat (arows (alm_counts (v4 out)))]"
  define f_vis where "f_vis = (\<lambda>v. cc (common_type w (map snd (cols (df_vis_exon (v3 out)))) v))"
  define f_alm where "f_alm = (\<lambda>v. cc (common_type w (map snd (cols (df_alm_exon (v3 out)))) v))"
  have total: "arows (total_count (v4 out)) =
      bool_select (vis_neuron (v4 out))
              (map (\<lambda>c. map f_vis (snd c)) (drop 1 (cols (df_vis_exon (v3 out)))))
            @ bool_select (alm_neuron (v4 out))
              (map (\<lambda>c. map f_alm (snd c)) (drop 1 (cols (df_alm_exon (v3 out)))))"
    unfolding rows cc_def [symmetric] f_vis_def f_alm_def
    by (simp add: bool_select_map [symmetric] comp_def)
  from complete_run_matrix [OF assms] have
    norm: "logcpm w (total_count (v4 out)) 1000000 = Inr (logCPM (v4 out))"
    and x: "X (adata_var (v8 out)) =
        \<lparr>ncols = length (gene_indx (v6 out)),
         arows = bool_select (cell_mask (v6 out))
                   (map (\<lambda>r. map (\<lambda>j. r ! j) (gene_indx (v6 out)))
                        (arows (logCPM (v4 out))))\<rparr>"
    by blast+
  from logcpm_success(2) [OF norm]
  have "list_all2 (\<lambda>counts x. \<exists>r. logcpm_cell w counts 1000000 = Inr r
                     \<and> x = map (\<lambda>j. r ! j) (gene_indx (v6 out)))
          (arows (total_count (v4 out)))
          (map (\<lambda>r. map (\<lambda>j. r ! j) (gene_indx (v6 out))) (arows (logCPM (v4 out))))"
    unfolding list_all2_map2 by (rule list_all2_mono) blast
  then have "list_all2 (\<lambda>counts x. \<exists>r. logcpm_cell w counts 1000000 = Inr r
                     \<and> x = map (\<lambda>j. r ! j) (gene_indx (v6 out)))
          (bool_select (cell_mask (v6 out)) (arows (total_count (v4 out))))
          (arows (X (adata_var (v8 out))))"
    unfolding x by (simp add: list_all2_bool_select)
  then show "\<exists>f_vis f_alm.
      list_all2 (\<lambda>counts x. \<exists>r. logcpm_cell w counts 1000000 = Inr r
                     \<and> x = map (\<lambda>j. r ! j) (gene_indx (v6 out)))
        (bool_select (cell_mask (v6 out))
           (bool_select (vis_neuron (v4 out))
              (map (\<lambda>c. map f_vis (snd c)) (drop 1 (cols (df_vis_exon (v3 out)))))
            @ bool_select (alm_neuron (v4 out))
              (map (\<lambda>c. map f_alm (snd c)) (drop 1 (cols (df_alm_exon (v3 out)))))))
        (arows (X (adata_var (v8 out))))"
    unfolding total by blast
  have look: "map_of (cols (df_anno_merged (v4 out))) c = Some vs \<Longrightarrow>
      vs = map (common_type w
                     [bool_select (vis_neuron (v4 out)) (column_or_nan (df_vis_anno (v3 out)) c),
                      bool_select (alm_neuron (v4 out)) (column_or_nan (df_alm_anno (v3 out)) c)])
                (bool_select (vis_neuron (v4 out)) (column_or_nan (df_vis_anno (v3 out)) c)
                 @ bool_select (alm_neuron (v4 out)) (column_or_nan (df_alm_anno (v3 out)) c))"
    for c vs
  proof -
    assume s: "map_of (cols (df_anno_merged (v4 out))) c = Some vs"
    define F where "F = (\<lambda>c. map (common_type w
                     [bool_select (vis_neuron (v4 out)) (column_or_nan (df_vis_anno (v3 out)) c),
                      bool_select (alm_neuron (v4 out)) (column_or_nan (df_alm_anno (v3 out)) c)])
                (bool_select (vis_neuron (v4 out)) (column_or_nan (df_vis_anno (v3 out)) c)
                 @ bool_select (alm_neuron (v4 out)) (column_or_nan (df_alm_anno (v3 out)) c)))"
    have m: "cols (df_anno_merged (v4 out)) =
        map (\<lambda>c. (c, F c)) (merged_names (df_vis_anno (v3 out)) (df_alm_anno (v3 out)))"
      unfolding merged F_def ..
    from s have "c \<in> set (merged_names (df_vis_anno (v3 out)) (df_alm_anno (v3 out)))"
      unfolding m by (auto dest!: map_of_SomeD)
    then have "map_of (cols (df_anno_merged (v4 out))) c = Some (F c)"
      unfolding m by (rule map_of_named)
    with s have "vs = F c" by simp
    then show ?thesis unfolding F_def .
  qed
  from obs_columns_from_merged [OF assms]
  show "list_all2 (\<lambda>c col. fst col = c \<and>
           snd col =
             map (\<lambda>v. if c = ''cluster''
                       then (if v = Str ''L6b VISp Col8a1 Rprm'' then Str ''L6b Col8a1 Rprm''
                             else if v = Str ''L6 CT ALM Nxph2 Sla'' then Str ''L6 CT Nxph2 Sla''
                             else v)
                       else v)
               (bool_select (cell_mask (v6 out))
                  (map (common_type w
                     [bool_select (vis_neuron (v4 out)) (column_or_nan (df_vis_anno (v3 out)) c),
                      bool_select (alm_neuron (v4 out)) (column_or_nan (df_alm_anno (v3 out)) c)])
                    (bool_select (vis_neuron (v4 out)) (column_or_nan (df_vis_anno (v3 out)) c)
                     @ bool_select (alm_neuron (v4 out))
                         (column_or_nan (df_alm_anno (v3 out)) c)))))
          obs_columns (cols (obs (adata_var (v8 out))))"
  proof (rule list_all2_mono)
    fix c col
    assume "fst col = c \<and>
            (\<exists>vs. map_of (cols (df_anno_merged (v4 out))) c = Some vs \<and>
               snd col =
                 (if c = ''cluster''
                  then map (\<lambda>v. if v = Str ''L6b VISp Col8a1 Rprm'' then Str ''L6b Col8a1 Rprm''
                                  else if v = Str ''L6 CT ALM Nxph2 Sla'' then Str ''L6 CT Nxph2 Sla''
                                  else v)
                           (bool_select (cell_mask (v6 out)) vs)
                  else bool_select (cell_mask (v6 out)) vs))"
    then obtain vs where f: "fst col = c"
      and m: "map_of (cols (df_anno_merged (v4 out))) c = Some vs"
      and s: "snd col =
                 (if c = ''cluster''
                  then map (\<lambda>v. if v = Str ''L6b VISp Col8a1 Rprm'' then Str ''L6b Col8a1 Rprm''
                                  else if v = Str ''L6 CT ALM Nxph2 Sla'' then Str ''L6 CT Nxph2 Sla''
                                  else v)
                           (bool_select (cell_mask (v6 out)) vs)
                  else bool_select (cell_mask (v6 out)) vs)"
      by blast
    from f s show "fst col = c \<and>
           snd col =
             map (\<lambda>v. if c = ''cluster''
                       then (if v = Str ''L6b VISp Col8a1 Rprm'' then Str ''L6b Col8a1 Rprm''
                             else if v = Str ''L6 CT ALM Nxph2 Sla'' then Str ''L6 CT Nxph2 Sla''
                             else v)
                       else v)
               (bool_select (cell_mask (v6 out))
                  (map (common_type w
                     [bool_select (vis_neuron (v4 out)) (column_or_nan (df_vis_anno (v3 out)) c),
                      bool_select (alm_neuron (v4 out)) (column_or_nan (df_alm_anno (v3 out)) c)])
                    (bool_select (vis_neuron (v4 out)) (column_or_nan (df_vis_anno (v3 out)) c)
                     @ bool_select (alm_neuron (v4 out))
                         (column_or_nan (df_alm_anno (v3 out)) c))))"
      unfolding look [OF m, symmetric] by (cases "c = ''cluster''") simp_all
  qed
qed

subsection \<open>Calls and exceptions\<close>

lemma quiet_append: "quiet (t @ u) \<longleftrightarrow> quiet t \<and> quiet u"
  by (simp add: quiet_def)

lemma quiet_butlast: "quiet t \<Longrightarrow> quiet (butlast t)"
  by (auto simp: quiet_def list_all_iff dest: in_set_butlastD)

lemma quiet_last: "quiet t \<Longrightarrow> t \<noteq> [] \<Longrightarrow> snd (last t) = None"
  by (auto simp: quiet_def list_all_iff)

lemma steps_append: "steps (t @ u) = steps t @ steps u"
  by (simp add: steps_def)

lemma in_order_pure: "in_order [] (pure r)"
  by (cases r) (simp_all add: in_order_def pure_def steps_def quiet_def)

lemma in_order_call: "in_order [step_name ev] (call ev r)"
  by (cases r) (simp_all add: in_order_def call_def steps_def quiet_def raised_def)

lemma in_order_then:
  assumes m: "in_order xs m" and f: "\<And>x. in_order ys (f x)"
  shows "in_order (xs @ ys) (then_run m f)"
proof -
  obtain t r where mr: "m = (t, r)" by (cases m)
  show ?thesis
  proof (cases r)
    case (Inl e)
    with m mr show ?thesis
      by (auto simp: in_order_def then_run_def intro: prefix_order.trans)
  next
    case (Inr x)
    with m mr have t: "steps t = xs" "quiet t"
      by (simp_all add: in_order_def)
    obtain t' r' where fx: "f x = (t', r')" by (cases "f x")
    from f [of x] fx have o: "in_order ys (t', r')" by simp
    have run: "then_run m f = (t @ t', r')"
      by (simp add: then_run_def mr Inr fx)
    show ?thesis
    proof (cases r')
      case (Inr y)
      with o t show ?thesis
        by (simp add: run in_order_def steps_append quiet_append)
    next
      case (Inl e)
      with o have p: "prefix (steps t') ys" and q: "quiet (butlast t')"
        and l: "t' = [] \<or> snd (last t') = None \<or> snd (last t') = Some e"
        by (simp_all add: in_order_def)
      show ?thesis
      proof (cases "t' = []")
        case True
        with t p Inl show ?thesis
          by (auto simp: run in_order_def quiet_butlast quiet_last)
      next
        case False
        with t p q l Inl show ?thesis
          by (simp add: run in_order_def steps_append quiet_append butlast_append)
      qed
    qed
  qed
qed

lemma in_order_call_named: "step_name ev = n \<Longrightarrow> in_order [n] (call ev r)"
  using in_order_call [of ev r] by simp

lemma in_order_cell2: "in_order [''config'', ''os.makedirs'', ''download_file''] (cell2 w)"
proof -
  have "in_order ([''config''] @ [] @ [''os.makedirs''] @ [''download_file''] @ []) (cell2 w)"
    unfolding cell2_def call_download_def
    by (intro in_order_then in_order_call_named in_order_pure) simp_all
  then show ?thesis by simp
qed

lemma in_order_cell3:
  "in_order [''df_vis_exon'', ''df_vis_anno'', ''df_alm_exon'', ''df_alm_anno''] (cell3 w d)"
proof -
  have "in_order ([''df_vis_exon''] @ [''df_vis_anno''] @ [''df_alm_exon''] @ [''df_alm_anno'']
      @ []) (cell3 w d)"
    unfolding cell3_def call_read_csv_def
    by (intro in_order_then in_order_call_named in_order_pure) simp_all
  then show ?thesis by simp
qed

lemma in_order_cell5: "in_order [''ref_genes_df'', ''slc_gene_df''] (cell5 w config d)"
proof -
  have "in_order ([] @ [''ref_genes_df''] @ [''slc_gene_df''] @ []) (cell5 w config d)"
    unfolding cell5_def call_read_csv_def
    by (intro in_order_then in_order_call_named in_order_pure) simp_all
  then show ?thesis by simp
qed

lemma in_order_cell7: "in_order [''treeObj''] (cell7 w config d da)"
proof -
  have "in_order ([] @ [''treeObj''] @ []) (cell7 w config d da)"
    unfolding cell7_def
    by (intro in_order_then in_order_call_named in_order_pure) simp_all
  then show ?thesis by simp
qed

lemma in_order_cell8: "in_order [''adata.write_h5ad''] (cell8 w config d c6 da)"
proof -
  have "in_order ([] @ [] @ [''adata.write_h5ad''] @ []) (cell8 w config d c6 da)"
    unfolding cell8_def
    by (intro in_order_then in_order_call_named in_order_pure) simp_all
  then show ?thesis by simp
qed

lemma in_order_notebook: "in_order all_steps (notebook w)"
proof -
  have "in_order ([''config'', ''os.makedirs'', ''download_file''] @
      [''df_vis_exon'', ''df_vis_anno'', ''df_alm_exon'', ''df_alm_anno''] @ [] @
      [''ref_genes_df'', ''slc_gene_df''] @ [] @ [''treeObj''] @ [''adata.write_h5ad''] @ [])
      (notebook w)"
    unfolding notebook_def
    by (intro in_order_then in_order_cell2 in_order_cell3 in_order_cell5 in_order_cell7
        in_order_cell8 in_order_pure | simp only: split_paired_all prod.case)+
  then show ?thesis by (simp add: all_steps_def)
qed

lemma cell8_failure:
  assumes "cell8 w config d c6 da = (t, Inl e)"
  shows "t = [] \<or> (\<exists>p a. t = [(WriteH5ad p a, Some e)])"
  using assms
  by (auto simp: cell8_def then_run_def call_def pure_def raised_def
      split: sum.splits prod.splits)

lemma notebook_failure:
  assumes "snd (notebook w) = Inl e"
  shows "serialized (fst (notebook w)) = []"
    and "attempted (fst (notebook w)) = []
         \<or> (\<exists>t1 p a. fst (notebook w) = t1 @ [(WriteH5ad p a, Some e)])"
proof -
  have both: "serialized (fst (notebook w)) = [] \<and>
      (attempted (fst (notebook w)) = []
         \<or> (\<exists>t1 p a. fst (notebook w) = t1 @ [(WriteH5ad p a, Some e)]))"
  proof (cases "cell2 w")
    case c2: (Pair t2 r2)
    show ?thesis
    proof (cases r2)
      case (Inl e2)
      with c2 assms show ?thesis
        by (simp add: notebook_def then_run_def cell2_no_write [OF c2])
    next
      case (Inr cd)
      obtain config data_path where cd: "cd = (config, data_path)" by (cases cd)
      obtain t3 r3 where c3: "cell3 w data_path = (t3, r3)" by (cases "cell3 w data_path")
      note n2 = cell2_no_write [OF c2] and n3 = cell3_no_write [OF c3]
      show ?thesis
      proof (cases r3)
        case (Inl e3)
        with c2 Inr cd c3 show ?thesis
          by (simp add: notebook_def then_run_def serialized_append attempted_append n2 n3)
      next
        case r3: (Inr x3)
        show ?thesis
        proof (cases "cell4 (cell1 (kernel w)) w x3")
          case (Inl e4)
          with c2 Inr cd c3 r3 show ?thesis
            by (simp add: notebook_def then_run_def pure_def serialized_append
                attempted_append n2 n3)
        next
          case r4: (Inr x4)
          obtain t5 r5 where c5: "cell5 w config data_path = (t5, r5)"
            by (cases "cell5 w config data_path")
          note n5 = cell5_no_write [OF c5]
          show ?thesis
          proof (cases r5)
            case (Inl e5)
            with c2 Inr cd c3 r3 r4 c5 show ?thesis
              by (simp add: notebook_def then_run_def pure_def serialized_append
                  attempted_append n2 n3 n5)
          next
            case r5: (Inr x5)
            show ?thesis
            proof (cases "cell6 (cell1 (kernel w)) x4 x5")
              case (Inl e6)
              with c2 Inr cd c3 r3 r4 c5 r5 show ?thesis
                by (simp add: notebook_def then_run_def pure_def serialized_append
                    attempted_append n2 n3 n5)
            next
              case r6: (Inr x6)
              obtain t7 r7 where c7: "cell7 w config data_path (df_anno x6) = (t7, r7)"
                by (cases "cell7 w config data_path (df_anno x6)")
              note n7 = cell7_no_write [OF c7]
              show ?thesis
              proof (cases r7)
                case (Inl e7)
                with c2 Inr cd c3 r3 r4 c5 r5 r6 c7 show ?thesis
                  by (simp add: notebook_def then_run_def pure_def serialized_append
                      attempted_append n2 n3 n5 n7)
              next
                case r7: (Inr x7)
                obtain t8 r8 where c8: "cell8 w config data_path x6 x7 = (t8, r8)"
                  by (cases "cell8 w config data_path x6 x7")
                have run: "notebook w =
                    (t2 @ t3 @ t5 @ t7 @ t8,
                     case r8 of Inl e \<Rightarrow> Inl e
                     | Inr x8 \<Rightarrow> Inr \<lparr>v3 = x3, v4 = x4, v5 = x5, v6 = x6,
                                       df_anno_final = x7, v8 = x8\<rparr>)"
                  using c2 Inr cd c3 r3 r4 c5 r5 r6 c7 r7 c8
                  by (cases r8) (simp_all add: notebook_def then_run_def pure_def)
                with assms have r8: "r8 = Inl e" by (cases r8) simp_all
                from cell8_failure [OF c8 [unfolded r8]]
                show ?thesis
                  by (auto simp: run serialized_append attempted_append n2 n3 n5 n7)
              qed
            qed
          qed
        qed
      qed
    qed
  qed
  from both show "serialized (fst (notebook w)) = []" ..
  from both show "attempted (fst (notebook w)) = []
         \<or> (\<exists>t1 p a. fst (notebook w) = t1 @ [(WriteH5ad p a, Some e)])" ..
qed

text \<open>
  C7: every statement that calls on the world runs at most once, in the order of the
  notebook; an exception raised by a call (the creation of the directory and the write
  included) ends the run at that call, with that exception: no call follows it, so
  nothing is retried and nothing is undone. A run that ends in an exception has
  serialized no file, and it has not even attempted the write unless the write is the
  call that raised; in particular an exception raised by the configuration, the
  download, the reading of a table or the loading of the tree leaves no output, complete
  or partial.
\<close>

theorem C7_exceptions_end_the_run:
  "distinct (steps (fst (notebook w)))
   \<and> prefix (steps (fst (notebook w))) all_steps
   \<and> (\<forall>t1 ev e t2. fst (notebook w) = t1 @ (ev, Some e) # t2
         \<longrightarrow> t2 = [] \<and> snd (notebook w) = Inl e)
   \<and> (\<forall>e. snd (notebook w) = Inl e \<longrightarrow>
         serialized (fst (notebook w)) = []
         \<and> (attempted (fst (notebook w)) = []
            \<or> (\<exists>t1 p a. fst (notebook w) = t1 @ [(WriteH5ad p a, Some e)])))
   \<and> (\<forall>t1 ev e. fst (notebook w) = t1 @ [(ev, Some e)]
         \<and> step_name ev \<noteq> ''adata.write_h5ad''
         \<longrightarrow> attempted (fst (notebook w)) = [])"
proof -
  obtain t r where run: "notebook w = (t, r)" by (cases "notebook w")
  have o: "in_order all_steps (t, r)"
    using in_order_notebook [of w] by (simp add: run)
  have p: "prefix (steps t) all_steps"
    using o by (cases r) (simp_all add: in_order_def)
  have "distinct all_steps"
    by (simp add: all_steps_def)
  with p have d: "distinct (steps t)"
    by (metis prefix_def distinct_append)
  have last: "t2 = [] \<and> r = Inl e" if t: "t = t1 @ (ev, Some e) # t2" for t1 ev e t2
  proof (cases r)
    case (Inr x)
    with o have "quiet t" by (simp add: in_order_def)
    with t show ?thesis by (simp add: quiet_def)
  next
    case (Inl e')
    with o have q: "quiet (butlast t)"
      and l: "t = [] \<or> snd (last t) = None \<or> snd (last t) = Some e'"
      by (simp_all add: in_order_def)
    have "t2 = []"
    proof (rule ccontr)
      assume "t2 \<noteq> []"
      with t have "butlast t = t1 @ (ev, Some e) # butlast t2"
        by (simp add: butlast_append)
      with q show False by (simp add: quiet_def)
    qed
    with t l Inl show ?thesis by simp
  qed
  have fail: "serialized t = [] \<and>
      (attempted t = [] \<or> (\<exists>t1 p a. t = t1 @ [(WriteH5ad p a, Some e)]))"
    if "r = Inl e" for e
    using notebook_failure [of w e] that by (simp add: run)
  have other: "attempted t = []"
    if t: "t = t1 @ [(ev, Some e)]" and n: "step_name ev \<noteq> ''adata.write_h5ad''" for t1 ev e
  proof -
    from last [of t1 ev e "[]"] t have "r = Inl e" by simp
    from fail [OF this] t n show ?thesis by auto
  qed
  show ?thesis
    using d p last fail other by (simp add: run)
qed

subsection \<open>The gene lookup\<close>

lemma bool_select_positions:
  "length m = length xs \<Longrightarrow>
     bool_select m xs = map (\<lambda>i. xs ! i) (filter (\<lambda>i. m ! i) [0..<length xs])"
proof (induction m xs rule: list_induct2)
  case Nil
  then show ?case by (simp add: bool_select_def)
next
  case (Cons b m x xs)
  have "[0..<Suc (length xs)] = 0 # map Suc [0..<length xs]"
    by (simp add: upt_conv_Cons map_Suc_upt del: upt_Suc)
  with Cons.IH show ?case
    by (simp add: bool_select_def filter_map comp_def del: upt_Suc)
qed

lemma where_first_None_iff: "where_first vs g = None \<longleftrightarrow> \<not> list_ex (\<lambda>v. val_eq v g) vs"
  by (induction vs) auto

lemma where_first_Some:
  "where_first vs g = Some i \<Longrightarrow>
     i < length vs \<and> val_eq (vs ! i) g \<and> (\<forall>j<i. \<not> val_eq (vs ! j) g)"
proof (induction vs arbitrary: i)
  case Nil
  then show ?case by simp
next
  case (Cons v vs)
  show ?case
  proof (cases "val_eq v g")
    case True
    with Cons.prems show ?thesis by simp
  next
    case False
    with Cons.prems obtain k where k: "where_first vs g = Some k" "i = Suc k"
      by auto
    from Cons.IH [OF k(1)] False k(2) show ?thesis
      by (auto simp: nth_Cons split: nat.splits)
  qed
qed

lemma map_e_failure:
  assumes "x0 \<in> set xs" and "f x0 = Inl e"
    and "\<And>x. x \<in> set xs \<Longrightarrow> f x = Inl e \<or> (\<exists>y. f x = Inr y)"
  shows "map_e f xs = Inl e"
  using assms
proof (induction xs)
  case Nil
  then show ?case by simp
next
  case (Cons x xs)
  show ?case
  proof (cases "f x")
    case (Inl e')
    with Cons.prems(3) [of x] show ?thesis by (simp add: bind_e_def)
  next
    case (Inr y)
    with Cons.prems(1,2) have "x0 \<in> set xs" by auto
    with Cons.IH [OF this Cons.prems(2)] Cons.prems(3) have "map_e f xs = Inl e" by simp
    with Inr show ?thesis by (simp add: bind_e_def)
  qed
qed

lemma cell6_unmatched:
  assumes np: "np g = Inr ()"
    and gs: "getattr (slc_gene_df c5) ''genes'' = Inr gs"
    and sy: "getattr (ref_genes_df c5) ''gene_symbol'' = Inr symbols"
    and gg: "gg \<in> set gs" "\<not> list_ex (\<lambda>v. val_eq v gg) symbols"
  shows "cell6 g c4 c5 = Inl IndexError"
proof -
  have each: "gene_index g (ref_genes_df c5) x = Inl IndexError
      \<or> (\<exists>y. gene_index g (ref_genes_df c5) x = Inr y)" for x
    by (cases "where_first symbols x") (simp_all add: gene_index_def np sy bind_e_def)
  from gg(2) have "where_first symbols gg = None"
    by (simp add: where_first_None_iff)
  then have "gene_index g (ref_genes_df c5) gg = Inl IndexError"
    by (simp add: gene_index_def np sy bind_e_def)
  with gg(1) have "map_e (gene_index g (ref_genes_df c5)) gs = Inl IndexError"
    using each by (rule map_e_failure)
  then show ?thesis
    by (simp add: cell6_def gs bind_e_def)
qed

text \<open>
  C8: the lookup of the gene positions is unguarded. A complete run implies that every
  selected gene occurs in the column \<^verbatim>\<open>gene_symbol\<close> of the reference list. When the run
  has reached cell 6 and some selected gene has no match there, the first-occurrence
  indexing raises IndexError: cell 6 fails with it whatever the merged table and the
  normalized matrix are (the filter is not reached), and the run ends there, after the
  two gene tables were read.
\<close>

theorem C8_unmatched_gene_raises:
  "(snd (notebook w) = Inr out \<longrightarrow>
      getattr (slc_gene_df (v5 out)) ''genes'' = Inr (genes (v6 out))
      \<and> list_all (\<lambda>g. \<exists>symbols.
            getattr (ref_genes_df (v5 out)) ''gene_symbol'' = Inr symbols
            \<and> list_ex (\<lambda>v. val_eq v g) symbols)
          (genes (v6 out)))
   \<and> (cell2 w = (t2, Inr (config, data_path)) \<and> cell3 w data_path = (t3, Inr c3)
      \<and> cell4 (cell1 (kernel w)) w c3 = Inr c4
      \<and> cell5 w config data_path = (t5, Inr c5)
      \<and> getattr (slc_gene_df c5) ''genes'' = Inr gs
      \<and> getattr (ref_genes_df c5) ''gene_symbol'' = Inr symbols
      \<and> gg \<in> set gs \<and> \<not> list_ex (\<lambda>v. val_eq v gg) symbols
      \<longrightarrow> cell6 (cell1 (kernel w)) c4 c5 = Inl IndexError
          \<and> notebook w = (t2 @ t3 @ t5, Inl IndexError))"
proof (intro conjI impI)
  assume ok: "snd (notebook w) = Inr out"
  then obtain t where run: "notebook w = (t, Inr out)"
    by (cases "notebook w") simp
  then have "cell6 (cell1 (kernel w)) (v4 out) (v5 out) = Inr (v6 out)"
    by (rule notebook_success)
  then have gs: "getattr (slc_gene_df (v5 out)) ''genes'' = Inr (genes (v6 out))"
    and gi: "map_e (gene_index (cell1 (kernel w)) (ref_genes_df (v5 out))) (genes (v6 out))
               = Inr (gene_indx (v6 out))"
    by (auto elim!: cell6_success)
  from gs show "getattr (slc_gene_df (v5 out)) ''genes'' = Inr (genes (v6 out))" .
  have "list_all2 (\<lambda>g j. \<exists>symbols.
          getattr (ref_genes_df (v5 out)) ''gene_symbol'' = Inr symbols
          \<and> list_ex (\<lambda>v. val_eq v g) symbols)
        (genes (v6 out)) (gene_indx (v6 out))"
    using map_e_success [OF gi]
  proof (rule list_all2_mono)
    fix g j
    assume "gene_index (cell1 (kernel w)) (ref_genes_df (v5 out)) g = Inr j"
    from gene_index_success(2) [OF this] obtain symbols where
      s: "getattr (ref_genes_df (v5 out)) ''gene_symbol'' = Inr symbols"
      and "where_first symbols g = Some j"
      by blast
    then have "where_first symbols g \<noteq> None" by simp
    then have "list_ex (\<lambda>v. val_eq v g) symbols"
      by (simp add: where_first_None_iff)
    with s show "\<exists>symbols. getattr (ref_genes_df (v5 out)) ''gene_symbol'' = Inr symbols
          \<and> list_ex (\<lambda>v. val_eq v g) symbols"
      by blast
  qed
  then show "list_all (\<lambda>g. \<exists>symbols.
            getattr (ref_genes_df (v5 out)) ''gene_symbol'' = Inr symbols
            \<and> list_ex (\<lambda>v. val_eq v g) symbols)
          (genes (v6 out))"
    by (auto simp: list_all_iff list_all2_conv_all_nth in_set_conv_nth)
next
  assume h: "cell2 w = (t2, Inr (config, data_path)) \<and> cell3 w data_path = (t3, Inr c3)
      \<and> cell4 (cell1 (kernel w)) w c3 = Inr c4
      \<and> cell5 w config data_path = (t5, Inr c5)
      \<and> getattr (slc_gene_df c5) ''genes'' = Inr gs
      \<and> getattr (ref_genes_df c5) ''gene_symbol'' = Inr symbols
      \<and> gg \<in> set gs \<and> \<not> list_ex (\<lambda>v. val_eq v gg) symbols"
  then have "np (cell1 (kernel w)) = Inr ()"
    by (auto elim!: cell4_success)
  with h show c6: "cell6 (cell1 (kernel w)) c4 c5 = Inl IndexError"
    by (intro cell6_unmatched [of _ _ gs symbols gg]) simp_all
  with h show "notebook w = (t2 @ t3 @ t5, Inl IndexError)"
    by (simp add: notebook_def then_run_def pure_def)
qed

subsection \<open>The renaming, the download, the kernel\<close>

lemma list_all2_fst:
  "list_all2 (\<lambda>c col. fst col = c \<and> Q c col) cs sel \<Longrightarrow> map fst sel = cs"
  by (induction rule: list_all2_induct) auto

lemma merged_table_columns:
  assumes "snd (notebook w) = Inr out"
  shows "map fst (cols (df_anno_merged (v4 out))) =
           merged_names (df_vis_anno (v3 out)) (df_alm_anno (v3 out))"
proof -
  obtain t where "notebook w = (t, Inr out)"
    using assms by (cases "notebook w") simp
  then have "cell4 (cell1 (kernel w)) w (v3 out) = Inr (v4 out)"
    by (rule notebook_success)
  then obtain vis_sel alm_sel where
    fv: "filter_rows (df_vis_anno (v3 out)) (vis_neuron (v4 out)) = Inr vis_sel"
    and fa: "filter_rows (df_alm_anno (v3 out)) (alm_neuron (v4 out)) = Inr alm_sel"
    and m: "df_anno_merged (v4 out) = concat_frames (common_type w) vis_sel alm_sel"
    by (rule cell4_success)
  show ?thesis
    unfolding m concat_frames_def merged_names_def
    by (simp add: filter_rows_success(4) [OF fv] filter_rows_success(4) [OF fa] comp_def)
qed

lemma rename_statement_columns:
  "map fst (cols (fst (rename_statement df))) =
     map (\<lambda>c. if c = ''seq_name'' then ''sample_id''
               else if c = ''class'' then ''class_label'' else c) (map fst (cols df))"
  by (auto simp: rename_statement_def rename_def)

text \<open>
  C9: the renaming statement leaves \<^verbatim>\<open>df_anno\<close> as it was (its value, with
  \<^verbatim>\<open>seq_name\<close> and \<^verbatim>\<open>class\<close> renamed, is dropped). So in a complete run the table
  after cell 7 has the column names it had before, the metadata written has the columns
  of cell 8, with \<^verbatim>\<open>class\<close> and without \<^verbatim>\<open>class_label\<close>, and a column
  \<^verbatim>\<open>sample_id\<close> was already in an annotation table that was read.
\<close>

theorem C9_rename_leaves_table_unchanged:
  "snd (rename_statement df) = df
   \<and> map fst (cols (fst (rename_statement df))) =
       map (\<lambda>c. if c = ''seq_name'' then ''sample_id''
                 else if c = ''class'' then ''class_label'' else c) (map fst (cols df))
   \<and> (snd (notebook w) = Inr out \<longrightarrow>
        map fst (cols (df_anno_final out)) = map fst (cols (df_anno (v6 out)))
        \<and> map fst (cols (obs (adata_var (v8 out)))) = obs_columns
        \<and> List.member (map fst (cols (obs (adata_var (v8 out))))) ''class''
        \<and> \<not> List.member (map fst (cols (obs (adata_var (v8 out))))) ''class_label''
        \<and> (List.member (map fst (cols (df_vis_anno (v3 out)))) ''sample_id''
           \<or> List.member (map fst (cols (df_alm_anno (v3 out)))) ''sample_id''))"
proof (intro conjI impI)
  show "snd (rename_statement df) = df"
    by (simp add: rename_statement_def)
  show "map fst (cols (fst (rename_statement df))) =
       map (\<lambda>c. if c = ''seq_name'' then ''sample_id''
                 else if c = ''class'' then ''class_label'' else c) (map fst (cols df))"
    by (rule rename_statement_columns)
next
  assume ok: "snd (notebook w) = Inr out"
  then obtain t where run: "notebook w = (t, Inr out)"
    by (cases "notebook w") simp
  then obtain config data_path t7 where
    c7: "cell7 w config data_path (df_anno (v6 out)) = (t7, Inr (df_anno_final out))"
    by (rule notebook_success)
  then obtain d1 where
    a1: "assign_where (df_anno (v6 out)) ''cluster'' (Str ''L6b VISp Col8a1 Rprm'')
           (Str ''L6b Col8a1 Rprm'') = Inr d1"
    and a2: "assign_where d1 ''cluster'' (Str ''L6 CT ALM Nxph2 Sla'')
           (Str ''L6 CT Nxph2 Sla'') = Inr (df_anno_final out)"
    by (rule cell7_success)
  show "map fst (cols (df_anno_final out)) = map fst (cols (df_anno (v6 out)))"
    by (simp add: assign_where_success(1) [OF a2] assign_where_success(1) [OF a1]
        case_prod_beta comp_def)
  note sel = obs_columns_from_merged [OF ok]
  from sel show names: "map fst (cols (obs (adata_var (v8 out)))) = obs_columns"
    by (rule list_all2_fst)
  show "List.member (map fst (cols (obs (adata_var (v8 out))))) ''class''"
    unfolding names by (simp add: obs_columns_def)
  show "\<not> List.member (map fst (cols (obs (adata_var (v8 out))))) ''class_label''"
    unfolding names by (simp add: obs_columns_def)
  have "''sample_id'' \<in> set obs_columns"
    by (simp add: obs_columns_def)
  with sel have "\<exists>vs. map_of (cols (df_anno_merged (v4 out))) ''sample_id'' = Some vs"
    using list_all2_map_of [OF sel, of "''sample_id''"] by auto
  then have "''sample_id'' \<in> set (map fst (cols (df_anno_merged (v4 out))))"
    by (auto dest: map_of_SomeD intro: rev_image_eqI)
  then have "''sample_id'' \<in> set (merged_names (df_vis_anno (v3 out)) (df_alm_anno (v3 out)))"
    by (simp only: merged_table_columns [OF ok])
  then show "List.member (map fst (cols (df_vis_anno (v3 out)))) ''sample_id''
           \<or> List.member (map fst (cols (df_alm_anno (v3 out)))) ''sample_id''"
    by (auto simp: merged_names_def)
qed

text \<open>
  The files read after the download. The four tables and the reference gene list have
  fixed names in the data directory, none of them the name of the download: they are
  read as the disk held them before the run, whatever was downloaded. The selected-gene
  list and the tree have configured names.
\<close>

lemma fixed_name_not_download:
  assumes "n \<in> {''mouse_VISp_2018-06-14_exon-matrix.csv'',
      ''mouse_VISp_2018-06-14_samples-columns.csv'', ''mouse_ALM_2018-06-14_exon-matrix.csv'',
      ''mouse_ALM_2018-06-14_samples-columns.csv'', ''mouse_ALM_2018-06-14_genes-rows.csv''}"
  shows "disk w data_path (path_join data_path n) = files w (path_join data_path n)"
  using assms by (auto simp: disk_def path_join_def split: sum.splits)

lemma read_fixed_name:
  assumes "n \<in> {''mouse_VISp_2018-06-14_exon-matrix.csv'',
      ''mouse_VISp_2018-06-14_samples-columns.csv'', ''mouse_ALM_2018-06-14_exon-matrix.csv'',
      ''mouse_ALM_2018-06-14_samples-columns.csv'', ''mouse_ALM_2018-06-14_genes-rows.csv''}"
  shows "read_csv (w\<lparr>download_file := d\<rparr>) (disk (w\<lparr>download_file := d\<rparr>) data_path)
            (path_join data_path n) enc
       = read_csv w (files w) (path_join data_path n) enc"
  unfolding read_csv_def fixed_name_not_download [OF assms]
  by (simp split: option.splits)

lemma cell3_any_download:
  "cell3 (w\<lparr>download_file := d1\<rparr>) data_path = cell3 (w\<lparr>download_file := d2\<rparr>) data_path"
  unfolding cell3_def call_read_csv_def
  by (simp only: read_fixed_name insertI1 insertI2)

lemma logcpm_any_download: "logcpm (w\<lparr>download_file := d\<rparr>) = logcpm w"
  by (simp add: logcpm_def fun_eq_iff)

lemma cell4_any_download: "cell4 g (w\<lparr>download_file := d\<rparr>) c3 = cell4 g w c3"
  by (simp add: cell4_def logcpm_any_download)

lemma cell5_same_gene_list:
  assumes "\<And>f. cfg_get config sub_file ''ref_gene_file'' = Inr f \<Longrightarrow>
      disk (w\<lparr>download_file := d1\<rparr>) data_path (path_join data_path f)
        = disk (w\<lparr>download_file := d2\<rparr>) data_path (path_join data_path f)"
  shows "cell5 (w\<lparr>download_file := d1\<rparr>) config data_path
       = cell5 (w\<lparr>download_file := d2\<rparr>) config data_path"
proof (cases "cfg_get config sub_file ''ref_gene_file''")
  case (Inl e)
  then show ?thesis by (simp add: cell5_def then_run_def pure_def)
next
  case (Inr f)
  from assms [OF Inr] show ?thesis
    by (simp add: cell5_def then_run_def pure_def Inr call_read_csv_def read_csv_def
        fixed_name_not_download cong: option.case_cong)
qed

lemma cell7_same_tree:
  assumes "\<And>f. cfg_get config sub_file ''htree_file'' = Inr f \<Longrightarrow>
      disk (w\<lparr>download_file := d1\<rparr>) data_path (path_join data_path f)
        = disk (w\<lparr>download_file := d2\<rparr>) data_path (path_join data_path f)"
  shows "cell7 (w\<lparr>download_file := d1\<rparr>) config data_path da
       = cell7 (w\<lparr>download_file := d2\<rparr>) config data_path da"
proof (cases "cfg_get config sub_file ''htree_file''")
  case (Inl e)
  then show ?thesis by (simp add: cell7_def then_run_def pure_def)
next
  case (Inr f)
  from assms [OF Inr] show ?thesis
    by (simp add: cell7_def then_run_def pure_def Inr load_tree_def cong: option.case_cong)
qed

lemma cell8_any_download:
  "cell8 (w\<lparr>download_file := d\<rparr>) config data_path c6 da = cell8 w config data_path c6 da"
  by (simp add: cell8_def)

lemma then_run_same_rest:
  assumes "\<And>x. snd m1 = Inr x \<Longrightarrow> f1 x = f2 x"
    and "snd m1 = snd m2" and "serialized (fst m1) = serialized (fst m2)"
    and "attempted (fst m1) = attempted (fst m2)"
  shows "snd (then_run m1 f1) = snd (then_run m2 f2)
    \<and> serialized (fst (then_run m1 f1)) = serialized (fst (then_run m2 f2))
    \<and> attempted (fst (then_run m1 f1)) = attempted (fst (then_run m2 f2))"
proof -
  obtain t1 r where m1: "m1 = (t1, r)" by (cases m1)
  with assms(2) obtain t2 where m2: "m2 = (t2, r)" by (cases m2) simp
  from assms(3,4) m1 m2 have s: "serialized t1 = serialized t2" "attempted t1 = attempted t2"
    by simp_all
  show ?thesis
  proof (cases r)
    case (Inl e)
    with m1 m2 s show ?thesis by (simp add: then_run_def)
  next
    case (Inr x)
    obtain t' r' where f: "f2 x = (t', r')" by (cases "f2 x")
    with assms(1) [of x] m1 Inr have "f1 x = (t', r')" by simp
    with f m1 m2 s Inr show ?thesis
      by (simp add: then_run_def serialized_append attempted_append)
  qed
qed

lemma cell2_any_download:
  "snd (cell2 (w\<lparr>download_file := (\<lambda>u p. Inr b1)\<rparr>))
     = snd (cell2 (w\<lparr>download_file := (\<lambda>u p. Inr b2)\<rparr>))"
  by (auto simp: cell2_def then_run_def call_def pure_def call_download_def
      split: sum.splits prod.splits)

lemma cell2_no_write_fst: "serialized (fst (cell2 w)) = []" "attempted (fst (cell2 w)) = []"
  by (rule cell2_no_write [of w _ "snd (cell2 w)"], simp)+

text \<open>
  C10: take two runs in worlds that differ only in the content the download saves, and
  suppose with the claim that the inputs read are the same in both: the selected-gene
  list and the tree, whose names are configured, hold the same content on the disks of
  the two runs (for the tables and the reference gene list this is proved above, not
  supposed). Then the two runs end alike, with the same result or the same exception,
  and serialize, or attempt to serialize, the same files.
\<close>

theorem C10_output_independent_of_download:
  assumes "\<And>t config data_path f.
      cell2 (w\<lparr>download_file := (\<lambda>u p. Inr b1)\<rparr>) = (t, Inr (config, data_path)) \<Longrightarrow>
      cfg_get config sub_file ''ref_gene_file'' = Inr f \<Longrightarrow>
      disk (w\<lparr>download_file := (\<lambda>u p. Inr b1)\<rparr>) data_path (path_join data_path f)
        = disk (w\<lparr>download_file := (\<lambda>u p. Inr b2)\<rparr>) data_path (path_join data_path f)"
    and "\<And>t config data_path f.
      cell2 (w\<lparr>download_file := (\<lambda>u p. Inr b1)\<rparr>) = (t, Inr (config, data_path)) \<Longrightarrow>
      cfg_get config sub_file ''htree_file'' = Inr f \<Longrightarrow>
      disk (w\<lparr>download_file := (\<lambda>u p. Inr b1)\<rparr>) data_path (path_join data_path f)
        = disk (w\<lparr>download_file := (\<lambda>u p. Inr b2)\<rparr>) data_path (path_join data_path f)"
  shows "snd (notebook (w\<lparr>download_file := (\<lambda>u p. Inr b1)\<rparr>))
     = snd (notebook (w\<lparr>download_file := (\<lambda>u p. Inr b2)\<rparr>))
   \<and> serialized (fst (notebook (w\<lparr>download_file := (\<lambda>u p. Inr b1)\<rparr>)))
     = serialized (fst (notebook (w\<lparr>download_file := (\<lambda>u p. Inr b2)\<rparr>)))
   \<and> attempted (fst (notebook (w\<lparr>download_file := (\<lambda>u p. Inr b1)\<rparr>)))
     = attempted (fst (notebook (w\<lparr>download_file := (\<lambda>u p. Inr b2)\<rparr>)))"
  unfolding notebook_def
proof (rule then_run_same_rest)
  show "snd (cell2 (w\<lparr>download_file := (\<lambda>u p. Inr b1)\<rparr>))
     = snd (cell2 (w\<lparr>download_file := (\<lambda>u p. Inr b2)\<rparr>))"
    by (rule cell2_any_download)
  show "serialized (fst (cell2 (w\<lparr>download_file := (\<lambda>u p. Inr b1)\<rparr>)))
     = serialized (fst (cell2 (w\<lparr>download_file := (\<lambda>u p. Inr b2)\<rparr>)))"
    by (simp only: cell2_no_write_fst)
  show "attempted (fst (cell2 (w\<lparr>download_file := (\<lambda>u p. Inr b1)\<rparr>)))
     = attempted (fst (cell2 (w\<lparr>download_file := (\<lambda>u p. Inr b2)\<rparr>)))"
    by (simp only: cell2_no_write_fst)
next
  fix x :: "config \<times> string"
  assume ok: "snd (cell2 (w\<lparr>download_file := (\<lambda>u p. Inr b1)\<rparr>)) = Inr x"
  obtain config data_path where x: "x = (config, data_path)" by (cases x)
  from ok x have c2: "cell2 (w\<lparr>download_file := (\<lambda>u p. Inr b1)\<rparr>)
      = (fst (cell2 (w\<lparr>download_file := (\<lambda>u p. Inr b1)\<rparr>)), Inr (config, data_path))"
    by (metis prod.collapse)
  note c3 = cell3_any_download [where w = w and ?d1.0 = "\<lambda>u p. Inr b1"
      and data_path = data_path and ?d2.0 = "\<lambda>u p. Inr b2"]
  have c5: "cell5 (w\<lparr>download_file := (\<lambda>u p. Inr b1)\<rparr>) config data_path
      = cell5 (w\<lparr>download_file := (\<lambda>u p. Inr b2)\<rparr>) config data_path"
    by (rule cell5_same_gene_list) (rule assms(1) [OF c2])
  have c7: "\<And>da. cell7 (w\<lparr>download_file := (\<lambda>u p. Inr b1)\<rparr>) config data_path da
      = cell7 (w\<lparr>download_file := (\<lambda>u p. Inr b2)\<rparr>) config data_path da"
    by (rule cell7_same_tree) (rule assms(2) [OF c2])
  show "(case x of (config, data_path) \<Rightarrow>
       then_run (cell3 (w\<lparr>download_file := (\<lambda>u p. Inr b1)\<rparr>) data_path) (\<lambda>c3.
       then_run (pure (cell4 (cell1 (kernel (w\<lparr>download_file := (\<lambda>u p. Inr b1)\<rparr>)))
                         (w\<lparr>download_file := (\<lambda>u p. Inr b1)\<rparr>) c3)) (\<lambda>c4.
       then_run (cell5 (w\<lparr>download_file := (\<lambda>u p. Inr b1)\<rparr>) config data_path) (\<lambda>c5.
       then_run (pure (cell6 (cell1 (kernel (w\<lparr>download_file := (\<lambda>u p. Inr b1)\<rparr>))) c4 c5))
         (\<lambda>c6.
       then_run (cell7 (w\<lparr>download_file := (\<lambda>u p. Inr b1)\<rparr>) config data_path (df_anno c6))
         (\<lambda>da.
       then_run (cell8 (w\<lparr>download_file := (\<lambda>u p. Inr b1)\<rparr>) config data_path c6 da) (\<lambda>c8.
       pure (Inr \<lparr>v3 = c3, v4 = c4, v5 = c5, v6 = c6, df_anno_final = da,
                      v8 = c8\<rparr>)))))))) =
     (case x of (config, data_path) \<Rightarrow>
       then_run (cell3 (w\<lparr>download_file := (\<lambda>u p. Inr b2)\<rparr>) data_path) (\<lambda>c3.
       then_run (pure (cell4 (cell1 (kernel (w\<lparr>download_file := (\<lambda>u p. Inr b2)\<rparr>)))
                         (w\<lparr>download_file := (\<lambda>u p. Inr b2)\<rparr>) c3)) (\<lambda>c4.
       then_run (cell5 (w\<lparr>download_file := (\<lambda>u p. Inr b2)\<rparr>) config data_path) (\<lambda>c5.
       then_run (pure (cell6 (cell1 (kernel (w\<lparr>download_file := (\<lambda>u p. Inr b2)\<rparr>))) c4 c5))
         (\<lambda>c6.
       then_run (cell7 (w\<lparr>download_file := (\<lambda>u p. Inr b2)\<rparr>) config data_path (df_anno c6))
         (\<lambda>da.
       then_run (cell8 (w\<lparr>download_file := (\<lambda>u p. Inr b2)\<rparr>) config data_path c6 da) (\<lambda>c8.
       pure (Inr \<lparr>v3 = c3, v4 = c4, v5 = c5, v6 = c6, df_anno_final = da,
                      v8 = c8\<rparr>))))))))"
    unfolding x prod.case unfolding c3 c5 c7 cell4_any_download cell8_any_download
    by simp
qed

lemma cell1_keeps_np: "cell1 g ''np'' = g ''np''"
  by (simp add: cell1_def)

lemma unbound_np_never_completes:
  assumes "kernel w ''np'' = None"
  shows "snd (notebook w) \<noteq> Inr out" and "serialized (fst (notebook w)) = []"
proof -
  show no: "snd (notebook w) \<noteq> Inr out" for out
  proof
    assume "snd (notebook w) = Inr out"
    then obtain t where "notebook w = (t, Inr out)"
      by (cases "notebook w") simp
    then have "cell4 (cell1 (kernel w)) w (v3 out) = Inr (v4 out)"
      by (rule notebook_success)
    then have "np (cell1 (kernel w)) = Inr ()"
      by (rule cell4_success)
    with assms show False
      by (simp add: np_def cell1_keeps_np)
  qed
  then obtain e where "snd (notebook w) = Inl e"
    by (cases "snd (notebook w)") auto
  then show "serialized (fst (notebook w)) = []"
    by (rule notebook_failure)
qed

text \<open>What a complete run writes.\<close>

lemma complete_run_output:
  assumes "snd (notebook w) = Inr out"
  shows "\<exists>path. serialized (fst (notebook w)) = [(path, adata_var (v8 out))]"
    and "X (adata_var (v8 out)) = log1p (v6 out)"
    and "map fst (cols (obs (adata_var (v8 out)))) = obs_columns"
    and "getattr (obs (adata_var (v8 out))) ''sample_id'' = Inr (index (obs (adata_var (v8 out))))"
    and "var_names (adata_var (v8 out)) = genes (v6 out)"
proof -
  obtain t where run: "notebook w = (t, Inr out)"
    using assms by (cases "notebook w") simp
  from notebook_serialized [OF run] run
  show "\<exists>path. serialized (fst (notebook w)) = [(path, adata_var (v8 out))]"
    by simp
  from run obtain config data_path t8 where
    "cell8 w config data_path (v6 out) (df_anno_final out) = (t8, Inr (v8 out))"
    by (rule notebook_success)
  then have "build_adata (genes (v6 out)) (log1p (v6 out)) (df_anno_final out) = Inr (v8 out)"
    by (rule cell8_success)
  then obtain sel ids where
    sd: "sub_df (v8 out) = (df_anno_final out)\<lparr>cols := sel\<rparr>"
    and ids: "getattr (sub_df (v8 out)) ''sample_id'' = Inr ids"
    and a: "adata_var (v8 out) =
      \<lparr>X = log1p (v6 out), obs = (df_anno_final out)\<lparr>cols := sel, index := ids\<rparr>,
       var_names = genes (v6 out)\<rparr>"
    by (rule build_adata_success)
  from a show "X (adata_var (v8 out)) = log1p (v6 out)"
    and "var_names (adata_var (v8 out)) = genes (v6 out)"
    by simp_all
  from ids show "getattr (obs (adata_var (v8 out))) ''sample_id''
      = Inr (index (obs (adata_var (v8 out))))"
    by (simp add: a sd getattr_def)
  show "map fst (cols (obs (adata_var (v8 out)))) = obs_columns"
    using obs_columns_from_merged [OF assms] by (rule list_all2_fst)
qed

subsection \<open>The small data set, run\<close>

lemma notebook_example: "notebook (ex_world used_kernel) = (ex_trace, Inr ex_vars)"
  by code_simp

lemma notebook_example_success: "snd (notebook (ex_world used_kernel)) = Inr ex_vars"
  by (simp add: notebook_example)

lemma notebook_no_download:
  "notebook ex_world_no_download =
     ([(GetPaths ''pyproject.toml'' ''10x_files'', None), (MakeDirs ''/repo/data'', None)]
      @ (Download url ''/repo/data/mouse_10x.hdf5'' None, Some (Raised ''HTTPError'')) # [],
      Inl (Raised ''HTTPError''))"
  by code_simp

lemma notebook_bad_csv:
  "notebook ex_world_bad_csv =
     ([(GetPaths ''pyproject.toml'' ''10x_files'', None),
       (MakeDirs ''/repo/data'', None),
       (Download url ''/repo/data/mouse_10x.hdf5'' (Some ''hdf5 bytes''), None),
       (ReadCsv ''df_vis_exon'' ''/repo/data/mouse_VISp_2018-06-14_exon-matrix.csv'', None),
       (ReadCsv ''df_vis_anno'' ''/repo/data/mouse_VISp_2018-06-14_samples-columns.csv'', None)]
      @ (ReadCsv ''df_alm_exon'' ''/repo/data/mouse_ALM_2018-06-14_exon-matrix.csv'',
         Some (Raised ''ParserError'')) # [],
      Inl (Raised ''ParserError''))"
  by code_simp

lemma notebook_no_makedirs:
  "notebook ex_world_no_makedirs =
     ((GetPaths ''pyproject.toml'' ''10x_files'', None)
      # (MakeDirs ''/repo/data'', Some (Raised ''PermissionError'')) # [],
      Inl (Raised ''PermissionError''))"
  by code_simp

lemma notebook_no_write:
  "notebook ex_world_no_write =
     (ex_reads @
      [(ReadCsv ''ref_genes_df'' ''/repo/data/mouse_ALM_2018-06-14_genes-rows.csv'', None),
       (ReadCsv ''slc_gene_df'' ''/repo/data/genes.csv'', None),
       (LoadTree ''/repo/data/tree.csv'', None)]
      @ (WriteH5ad ''/repo/data/out.h5ad'' ex_adata, Some (Raised ''TypeError'')) # [],
      Inl (Raised ''TypeError''))"
  by code_simp

text \<open>
  C7, at the small data set, in four worlds: the download fails; the third table cannot
  be parsed; the directory cannot be made; the write itself raises. In each the
  exception is the last entry of the trace and the result of the run, and no write is
  completed. In the first three no write is attempted; in the fourth the one attempted
  write is the call that raised.
\<close>

theorem C7_exceptions_end_the_run_witness:
  "fst (notebook ex_world_no_download) =
     [(GetPaths ''pyproject.toml'' ''10x_files'', None), (MakeDirs ''/repo/data'', None)]
     @ (Download url ''/repo/data/mouse_10x.hdf5'' None, Some (Raised ''HTTPError'')) # []
   \<and> snd (notebook ex_world_no_download) = Inl (Raised ''HTTPError'')
   \<and> serialized (fst (notebook ex_world_no_download)) = []
   \<and> attempted (fst (notebook ex_world_no_download)) = []
   \<and> distinct (steps (fst (notebook ex_world_no_download)))
   \<and> fst (notebook ex_world_bad_csv) =
     [(GetPaths ''pyproject.toml'' ''10x_files'', None),
       (MakeDirs ''/repo/data'', None),
       (Download url ''/repo/data/mouse_10x.hdf5'' (Some ''hdf5 bytes''), None),
       (ReadCsv ''df_vis_exon'' ''/repo/data/mouse_VISp_2018-06-14_exon-matrix.csv'', None),
       (ReadCsv ''df_vis_anno'' ''/repo/data/mouse_VISp_2018-06-14_samples-columns.csv'', None)]
      @ (ReadCsv ''df_alm_exon'' ''/repo/data/mouse_ALM_2018-06-14_exon-matrix.csv'',
         Some (Raised ''ParserError'')) # []
   \<and> snd (notebook ex_world_bad_csv) = Inl (Raised ''ParserError'')
   \<and> serialized (fst (notebook ex_world_bad_csv)) = []
   \<and> attempted (fst (notebook ex_world_bad_csv)) = []
   \<and> distinct (steps (fst (notebook ex_world_bad_csv)))
   \<and> fst (notebook ex_world_no_makedirs) =
     (GetPaths ''pyproject.toml'' ''10x_files'', None)
      # (MakeDirs ''/repo/data'', Some (Raised ''PermissionError'')) # []
   \<and> snd (notebook ex_world_no_makedirs) = Inl (Raised ''PermissionError'')
   \<and> serialized (fst (notebook ex_world_no_makedirs)) = []
   \<and> attempted (fst (notebook ex_world_no_makedirs)) = []
   \<and> fst (notebook ex_world_no_write) =
     (ex_reads @
      [(ReadCsv ''ref_genes_df'' ''/repo/data/mouse_ALM_2018-06-14_genes-rows.csv'', None),
       (ReadCsv ''slc_gene_df'' ''/repo/data/genes.csv'', None),
       (LoadTree ''/repo/data/tree.csv'', None)])
      @ [(WriteH5ad ''/repo/data/out.h5ad'' ex_adata, Some (Raised ''TypeError''))]
   \<and> snd (notebook ex_world_no_write) = Inl (Raised ''TypeError'')
   \<and> serialized (fst (notebook ex_world_no_write)) = []
   \<and> attempted (fst (notebook ex_world_no_write)) = [(''/repo/data/out.h5ad'', ex_adata)]
   \<and> distinct (steps (fst (notebook ex_world_no_write)))"
proof -
  note a = C7_exceptions_end_the_run [of ex_world_no_download]
  note b = C7_exceptions_end_the_run [of ex_world_bad_csv]
  note c = C7_exceptions_end_the_run [of ex_world_no_makedirs]
  note d = C7_exceptions_end_the_run [of ex_world_no_write]
  have s: "serialized ex_reads = []" "attempted ex_reads = []"
    by (simp_all add: ex_reads_def)
  from a b c d show ?thesis
    by (simp add: notebook_no_download notebook_bad_csv notebook_no_makedirs
        notebook_no_write serialized_append attempted_append s)
qed

subsection \<open>The small data set: a missing gene\<close>

lemma cfg_get_example:
  "cfg_get ex_config ''paths'' ''main_dir'' = Inr ''/repo''"
  "cfg_get ex_config sub_file ''data_path'' = Inr ''data''"
  "cfg_get ex_config sub_file ''ref_gene_file'' = Inr ''genes.csv''"
  by (simp_all add: cfg_get_def ex_config_def sub_file_def)

lemma cell2_unmatched:
  "cell2 ex_world_unmatched =
     ([(GetPaths ''pyproject.toml'' ''10x_files'', None),
       (MakeDirs ''/repo/data'', None),
       (Download url ''/repo/data/mouse_10x.hdf5'' (Some ''hdf5 bytes''), None)],
      Inr (ex_config, ''/repo/data''))"
  by (simp add: cell2_def ex_world_unmatched_def ex_world_def then_run_def call_def pure_def
      call_download_def raised_def bind_e_def cfg_get_example path_join_def toml_file_def
      sub_file_def [symmetric])

lemma cell3_unmatched:
  "cell3 ex_world_unmatched ''/repo/data'' =
     ([(ReadCsv ''df_vis_exon'' ''/repo/data/mouse_VISp_2018-06-14_exon-matrix.csv'', None),
       (ReadCsv ''df_vis_anno'' ''/repo/data/mouse_VISp_2018-06-14_samples-columns.csv'', None),
       (ReadCsv ''df_alm_exon'' ''/repo/data/mouse_ALM_2018-06-14_exon-matrix.csv'', None),
       (ReadCsv ''df_alm_anno'' ''/repo/data/mouse_ALM_2018-06-14_samples-columns.csv'', None)],
      Inr ex_v3)"
  by code_simp

lemma cell4_unmatched:
  "cell4 (cell1 (kernel ex_world_unmatched)) ex_world_unmatched ex_v3 = Inr ex_v4"
  by code_simp

lemma cell5_unmatched:
  "cell5 ex_world_unmatched ex_config ''/repo/data'' =
     ([(ReadCsv ''ref_genes_df'' ''/repo/data/mouse_ALM_2018-06-14_genes-rows.csv'', None),
       (ReadCsv ''slc_gene_df'' ''/repo/data/genes.csv'', None)],
      Inr \<lparr>ref_genes_df = ex_ref_genes, slc_gene_df = ex_slc_unmatched\<rparr>)"
  by code_simp

text \<open>C8, at the small data set: the hypothesis holds there, and so does the conclusion.\<close>

theorem C8_unmatched_gene_raises_witness:
  "snd (notebook (ex_world used_kernel)) = Inr ex_vars
   \<and> getattr (slc_gene_df (v5 ex_vars)) ''genes'' = Inr (genes (v6 ex_vars))
   \<and> list_all (\<lambda>g. \<exists>symbols.
            getattr (ref_genes_df (v5 ex_vars)) ''gene_symbol'' = Inr symbols
            \<and> list_ex (\<lambda>v. val_eq v g) symbols)
          (genes (v6 ex_vars))
   \<and> getattr ex_slc_unmatched ''genes'' = Inr [Str ''Gad1'', Str ''Pvalb'', Str ''Sst'']
   \<and> getattr ex_ref_genes ''gene_symbol'' = Inr [Str ''Sst'', Str ''Vip'', Str ''Gad1'']
   \<and> Str ''Pvalb'' \<in> set [Str ''Gad1'', Str ''Pvalb'', Str ''Sst'']
   \<and> \<not> list_ex (\<lambda>v. val_eq v (Str ''Pvalb'')) [Str ''Sst'', Str ''Vip'', Str ''Gad1'']
   \<and> cell6 (cell1 (kernel ex_world_unmatched)) ex_v4
        \<lparr>ref_genes_df = ex_ref_genes, slc_gene_df = ex_slc_unmatched\<rparr> = Inl IndexError
   \<and> notebook ex_world_unmatched =
       ([(GetPaths ''pyproject.toml'' ''10x_files'', None),
         (MakeDirs ''/repo/data'', None),
         (Download url ''/repo/data/mouse_10x.hdf5'' (Some ''hdf5 bytes''), None)] @
        [(ReadCsv ''df_vis_exon'' ''/repo/data/mouse_VISp_2018-06-14_exon-matrix.csv'', None),
         (ReadCsv ''df_vis_anno'' ''/repo/data/mouse_VISp_2018-06-14_samples-columns.csv'', None),
         (ReadCsv ''df_alm_exon'' ''/repo/data/mouse_ALM_2018-06-14_exon-matrix.csv'', None),
         (ReadCsv ''df_alm_anno'' ''/repo/data/mouse_ALM_2018-06-14_samples-columns.csv'', None)] @
        [(ReadCsv ''ref_genes_df'' ''/repo/data/mouse_ALM_2018-06-14_genes-rows.csv'', None),
         (ReadCsv ''slc_gene_df'' ''/repo/data/genes.csv'', None)],
        Inl IndexError)"
proof -
  have g1: "getattr ex_slc_unmatched ''genes'' = Inr [Str ''Gad1'', Str ''Pvalb'', Str ''Sst'']"
    by (simp add: getattr_def ex_slc_unmatched_def)
  have g2: "getattr ex_ref_genes ''gene_symbol'' = Inr [Str ''Sst'', Str ''Vip'', Str ''Gad1'']"
    by (simp add: getattr_def ex_ref_genes_def)
  have g3: "Str ''Pvalb'' \<in> set [Str ''Gad1'', Str ''Pvalb'', Str ''Sst'']"
    by simp
  have g4: "\<not> list_ex (\<lambda>v. val_eq v (Str ''Pvalb'')) [Str ''Sst'', Str ''Vip'', Str ''Gad1'']"
    by (simp add: val_eq_def)
  note a = C8_unmatched_gene_raises
    [of "ex_world used_kernel" ex_vars _ _ _ _ _ _ _ _ _ _ _, THEN conjunct1, rule_format,
     OF notebook_example_success]
  note b = C8_unmatched_gene_raises
    [of ex_world_unmatched _ _ ex_config "''/repo/data''" _ ex_v3 ex_v4 _
        "\<lparr>ref_genes_df = ex_ref_genes, slc_gene_df = ex_slc_unmatched\<rparr>"
        "[Str ''Gad1'', Str ''Pvalb'', Str ''Sst'']"
        "[Str ''Sst'', Str ''Vip'', Str ''Gad1'']" "Str ''Pvalb''",
     THEN conjunct2, rule_format]
  have c: "cell6 (cell1 (kernel ex_world_unmatched)) ex_v4
        \<lparr>ref_genes_df = ex_ref_genes, slc_gene_df = ex_slc_unmatched\<rparr> = Inl IndexError
     \<and> notebook ex_world_unmatched =
       ([(GetPaths ''pyproject.toml'' ''10x_files'', None),
         (MakeDirs ''/repo/data'', None),
         (Download url ''/repo/data/mouse_10x.hdf5'' (Some ''hdf5 bytes''), None)] @
        [(ReadCsv ''df_vis_exon'' ''/repo/data/mouse_VISp_2018-06-14_exon-matrix.csv'', None),
         (ReadCsv ''df_vis_anno'' ''/repo/data/mouse_VISp_2018-06-14_samples-columns.csv'', None),
         (ReadCsv ''df_alm_exon'' ''/repo/data/mouse_ALM_2018-06-14_exon-matrix.csv'', None),
         (ReadCsv ''df_alm_anno'' ''/repo/data/mouse_ALM_2018-06-14_samples-columns.csv'', None)] @
        [(ReadCsv ''ref_genes_df'' ''/repo/data/mouse_ALM_2018-06-14_genes-rows.csv'', None),
         (ReadCsv ''slc_gene_df'' ''/repo/data/genes.csv'', None)],
        Inl IndexError)"
    by (rule b)
       (simp add: cell2_unmatched cell3_unmatched cell4_unmatched cell5_unmatched g1 g2
          val_eq_def)
  from notebook_example_success a g1 g2 g3 g4 c show ?thesis
    by (intro conjI) simp_all
qed

text \<open>C9, at the small data set: the hypothesis holds there, and so does the conclusion.\<close>

theorem C9_rename_leaves_table_unchanged_witness:
  "snd (rename_statement ex_df_anno) = ex_df_anno
   \<and> map fst (cols (fst (rename_statement ex_df_anno))) =
       map (\<lambda>c. if c = ''seq_name'' then ''sample_id''
                 else if c = ''class'' then ''class_label'' else c) (map fst (cols ex_df_anno))
   \<and> snd (notebook (ex_world used_kernel)) = Inr ex_vars
   \<and> map fst (cols (df_anno_final ex_vars)) = map fst (cols (df_anno (v6 ex_vars)))
   \<and> map fst (cols (obs (adata_var (v8 ex_vars)))) = obs_columns
   \<and> List.member (map fst (cols (obs (adata_var (v8 ex_vars))))) ''class''
   \<and> \<not> List.member (map fst (cols (obs (adata_var (v8 ex_vars))))) ''class_label''
   \<and> (List.member (map fst (cols (df_vis_anno (v3 ex_vars)))) ''sample_id''
      \<or> List.member (map fst (cols (df_alm_anno (v3 ex_vars)))) ''sample_id'')"
  using notebook_example_success
    C9_rename_leaves_table_unchanged [of ex_df_anno "ex_world used_kernel" ex_vars]
  by (simp add: obs_columns_def)

subsection \<open>The small data set: two downloads\<close>

lemma cell2_two_downloads:
  "cell2 ((ex_world used_kernel)\<lparr>download_file := (\<lambda>u p. Inr ''hdf5 bytes'')\<rparr>) =
     ([(GetPaths ''pyproject.toml'' ''10x_files'', None),
       (MakeDirs ''/repo/data'', None),
       (Download url ''/repo/data/mouse_10x.hdf5'' (Some ''hdf5 bytes''), None)],
      Inr (ex_config, ''/repo/data''))"
  by (simp add: cell2_def ex_world_def then_run_def call_def pure_def
      call_download_def raised_def bind_e_def cfg_get_example path_join_def toml_file_def
      sub_file_def [symmetric])

lemma cfg_get_tree: "cfg_get ex_config sub_file ''htree_file'' = Inr ''tree.csv''"
  by (simp add: cfg_get_def ex_config_def sub_file_def)

lemma notebook_first_download:
  "notebook ((ex_world used_kernel)\<lparr>download_file := (\<lambda>u p. Inr ''hdf5 bytes'')\<rparr>)
     = (ex_trace, Inr ex_vars)"
  by code_simp

lemma disk_two_downloads:
  "disk ((ex_world used_kernel)\<lparr>download_file := (\<lambda>u p. Inr b)\<rparr>) ''/repo/data'' p =
     (if p = ''/repo/data/mouse_10x.hdf5'' then Some b else ex_files p)"
  by (simp add: disk_def ex_world_def path_join_def url_def)

text \<open>
  C10, at the small data set, with two different contents of the download: the disks of
  the two runs differ at the downloaded file and agree at the configured gene list and
  tree, the hypotheses hold, and both runs write the same one file.
\<close>

theorem C10_output_independent_of_download_witness:
  "''hdf5 bytes'' \<noteq> ''other bytes''
   \<and> disk ((ex_world used_kernel)\<lparr>download_file := (\<lambda>u p. Inr ''hdf5 bytes'')\<rparr>)
        ''/repo/data'' ''/repo/data/mouse_10x.hdf5'' = Some ''hdf5 bytes''
   \<and> disk ((ex_world used_kernel)\<lparr>download_file := (\<lambda>u p. Inr ''other bytes'')\<rparr>)
        ''/repo/data'' ''/repo/data/mouse_10x.hdf5'' = Some ''other bytes''
   \<and> snd (cell2 ((ex_world used_kernel)\<lparr>download_file := (\<lambda>u p. Inr ''hdf5 bytes'')\<rparr>))
        = Inr (ex_config, ''/repo/data'')
   \<and> cfg_get ex_config sub_file ''ref_gene_file'' = Inr ''genes.csv''
   \<and> cfg_get ex_config sub_file ''htree_file'' = Inr ''tree.csv''
   \<and> disk ((ex_world used_kernel)\<lparr>download_file := (\<lambda>u p. Inr ''hdf5 bytes'')\<rparr>)
        ''/repo/data'' ''/repo/data/genes.csv''
      = disk ((ex_world used_kernel)\<lparr>download_file := (\<lambda>u p. Inr ''other bytes'')\<rparr>)
        ''/repo/data'' ''/repo/data/genes.csv''
   \<and> disk ((ex_world used_kernel)\<lparr>download_file := (\<lambda>u p. Inr ''hdf5 bytes'')\<rparr>)
        ''/repo/data'' ''/repo/data/tree.csv''
      = disk ((ex_world used_kernel)\<lparr>download_file := (\<lambda>u p. Inr ''other bytes'')\<rparr>)
        ''/repo/data'' ''/repo/data/tree.csv''
   \<and> snd (notebook ((ex_world used_kernel)\<lparr>download_file := (\<lambda>u p. Inr ''other bytes'')\<rparr>))
        = Inr ex_vars
   \<and> serialized (fst (notebook
        ((ex_world used_kernel)\<lparr>download_file := (\<lambda>u p. Inr ''hdf5 bytes'')\<rparr>)))
        = [(''/repo/data/out.h5ad'', ex_adata)]
   \<and> serialized (fst (notebook
        ((ex_world used_kernel)\<lparr>download_file := (\<lambda>u p. Inr ''other bytes'')\<rparr>)))
        = [(''/repo/data/out.h5ad'', ex_adata)]
   \<and> attempted (fst (notebook
        ((ex_world used_kernel)\<lparr>download_file := (\<lambda>u p. Inr ''other bytes'')\<rparr>)))
        = [(''/repo/data/out.h5ad'', ex_adata)]"
proof -
  have h1: "disk ((ex_world used_kernel)\<lparr>download_file := (\<lambda>u p. Inr ''hdf5 bytes'')\<rparr>)
        data_path (path_join data_path f)
      = disk ((ex_world used_kernel)\<lparr>download_file := (\<lambda>u p. Inr ''other bytes'')\<rparr>)
        data_path (path_join data_path f)"
    if "cell2 ((ex_world used_kernel)\<lparr>download_file := (\<lambda>u p. Inr ''hdf5 bytes'')\<rparr>)
          = (t, Inr (config, data_path))"
      and "cfg_get config sub_file ''ref_gene_file'' = Inr f"
    for t config data_path f
    using that by (simp add: cell2_two_downloads) (auto simp: cfg_get_example
        disk_two_downloads path_join_def)
  have h2: "disk ((ex_world used_kernel)\<lparr>download_file := (\<lambda>u p. Inr ''hdf5 bytes'')\<rparr>)
        data_path (path_join data_path f)
      = disk ((ex_world used_kernel)\<lparr>download_file := (\<lambda>u p. Inr ''other bytes'')\<rparr>)
        data_path (path_join data_path f)"
    if "cell2 ((ex_world used_kernel)\<lparr>download_file := (\<lambda>u p. Inr ''hdf5 bytes'')\<rparr>)
          = (t, Inr (config, data_path))"
      and "cfg_get config sub_file ''htree_file'' = Inr f"
    for t config data_path f
    using that by (simp add: cell2_two_downloads) (auto simp: cfg_get_tree
        disk_two_downloads path_join_def)
  have same: "snd (notebook ((ex_world used_kernel)\<lparr>download_file := (\<lambda>u p. Inr ''hdf5 bytes'')\<rparr>))
     = snd (notebook ((ex_world used_kernel)\<lparr>download_file := (\<lambda>u p. Inr ''other bytes'')\<rparr>))
   \<and> serialized (fst (notebook
        ((ex_world used_kernel)\<lparr>download_file := (\<lambda>u p. Inr ''hdf5 bytes'')\<rparr>)))
     = serialized (fst (notebook
        ((ex_world used_kernel)\<lparr>download_file := (\<lambda>u p. Inr ''other bytes'')\<rparr>)))
   \<and> attempted (fst (notebook
        ((ex_world used_kernel)\<lparr>download_file := (\<lambda>u p. Inr ''hdf5 bytes'')\<rparr>)))
     = attempted (fst (notebook
        ((ex_world used_kernel)\<lparr>download_file := (\<lambda>u p. Inr ''other bytes'')\<rparr>)))"
    by (rule C10_output_independent_of_download) (erule (1) h1, erule (1) h2)
  have tr: "serialized ex_trace = [(''/repo/data/out.h5ad'', ex_adata)]"
    "attempted ex_trace = [(''/repo/data/out.h5ad'', ex_adata)]"
    by (simp_all add: ex_trace_def ex_reads_def)
  have r1: "snd (notebook ((ex_world used_kernel)\<lparr>download_file := (\<lambda>u p. Inr ''other bytes'')\<rparr>))
      = Inr ex_vars"
    using same [THEN conjunct1, symmetric] by (simp add: notebook_first_download)
  have r2: "serialized (fst (notebook
        ((ex_world used_kernel)\<lparr>download_file := (\<lambda>u p. Inr ''other bytes'')\<rparr>)))
      = [(''/repo/data/out.h5ad'', ex_adata)]"
    using same [THEN conjunct2, THEN conjunct1, symmetric]
    by (simp add: notebook_first_download tr)
  have r3: "attempted (fst (notebook
        ((ex_world used_kernel)\<lparr>download_file := (\<lambda>u p. Inr ''other bytes'')\<rparr>)))
      = [(''/repo/data/out.h5ad'', ex_adata)]"
    using same [THEN conjunct2, THEN conjunct2, symmetric]
    by (simp add: notebook_first_download tr)
  show ?thesis
    by (simp add: r1 r2 r3 notebook_first_download tr disk_two_downloads cell2_two_downloads
        cfg_get_example cfg_get_tree)
qed

subsection \<open>The small data set: a kernel started afresh\<close>

lemma notebook_fresh_kernel: "notebook (ex_world fresh_kernel) = (ex_reads, Inl NameError)"
  by code_simp

text \<open>
  C1 (the code at a kernel started afresh): cell 1 binds the array library as
  \<^verbatim>\<open>nps\<close> and leaves \<^verbatim>\<open>np\<close> unbound, so on the small data set the run ends in
  cell 4 with NameError, after the four tables were read, and serializes no file. The
  claim that the notebook serializes one annotated-matrix file holds for the runs that
  complete (\<open>complete_run_output\<close>), which need a kernel that held \<^verbatim>\<open>np\<close> before
  (\<open>unbound_np_never_completes\<close>).
\<close>

theorem C1_fresh_kernel_name_error:
  "cell1 fresh_kernel ''nps'' = Some (Module ''numpy'')
   \<and> cell1 fresh_kernel ''np'' = None
   \<and> snd (notebook (ex_world fresh_kernel)) = Inl NameError
   \<and> steps (fst (notebook (ex_world fresh_kernel))) =
       [''config'', ''os.makedirs'', ''download_file'', ''df_vis_exon'', ''df_vis_anno'',
        ''df_alm_exon'', ''df_alm_anno'']
   \<and> serialized (fst (notebook (ex_world fresh_kernel))) = []"
proof -
  have "cell1 fresh_kernel ''nps'' = Some (Module ''numpy'')"
    and "cell1 fresh_kernel ''np'' = None"
    by (simp_all add: cell1_def fresh_kernel_def)
  moreover have "snd (notebook (ex_world fresh_kernel)) = Inl NameError"
    by (simp add: notebook_fresh_kernel)
  moreover have "steps (fst (notebook (ex_world fresh_kernel))) =
       [''config'', ''os.makedirs'', ''download_file'', ''df_vis_exon'', ''df_vis_anno'',
        ''df_alm_exon'', ''df_alm_anno'']"
    by (simp add: notebook_fresh_kernel ex_reads_def steps_def)
  moreover have "serialized (fst (notebook (ex_world fresh_kernel))) = []"
    by (simp add: notebook_fresh_kernel ex_reads_def)
  ultimately show ?thesis by simp
qed


text \<open>Without \<^verbatim>\<open>np\<close> the normalization is not reached: the run does not depend on it.\<close>

lemma read_csv_any_normalization:
  "read_csv (w\<lparr>logcpm_cell := f\<rparr>) fs p enc = read_csv w fs p enc"
  by (simp add: read_csv_def split: option.splits)

lemma load_tree_any_normalization: "load_tree (w\<lparr>logcpm_cell := f\<rparr>) fs p = load_tree w fs p"
  by (simp add: load_tree_def split: option.splits)

lemma disk_any_normalization: "disk (w\<lparr>logcpm_cell := f\<rparr>) = disk w"
  by (simp add: disk_def fun_eq_iff split: sum.splits)

lemma cell4_any_normalization:
  assumes "np g = Inl e"
  shows "cell4 g (w\<lparr>logcpm_cell := f\<rparr>) c3 = cell4 g w c3"
  by (simp add: cell4_def assms bind_e_def)

lemma notebook_any_normalization:
  assumes "np (cell1 (kernel w)) = Inl e"
  shows "notebook (w\<lparr>logcpm_cell := f\<rparr>) = notebook w"
proof -
  have c2: "cell2 (w\<lparr>logcpm_cell := f\<rparr>) = cell2 w"
    by (simp add: cell2_def call_download_def)
  have c3: "cell3 (w\<lparr>logcpm_cell := f\<rparr>) d = cell3 w d" for d
    by (simp add: cell3_def call_read_csv_def read_csv_any_normalization
        disk_any_normalization)
  have c4: "cell4 (cell1 (kernel w)) (w\<lparr>logcpm_cell := f\<rparr>) c
      = cell4 (cell1 (kernel w)) w c" for c
    by (rule cell4_any_normalization [OF assms])
  have c5: "cell5 (w\<lparr>logcpm_cell := f\<rparr>) c d = cell5 w c d" for c d
    by (simp add: cell5_def call_read_csv_def read_csv_any_normalization
        disk_any_normalization)
  have c7: "cell7 (w\<lparr>logcpm_cell := f\<rparr>) c d da = cell7 w c d da" for c d da
    by (simp add: cell7_def load_tree_any_normalization disk_any_normalization)
  have c8: "cell8 (w\<lparr>logcpm_cell := f\<rparr>) c d c6 da = cell8 w c d c6 da" for c d c6 da
    by (simp add: cell8_def)
  have k: "kernel (w\<lparr>logcpm_cell := f\<rparr>) = kernel w"
    by simp
  show ?thesis
    unfolding notebook_def c2 c3 c5 c7 c8 k unfolding c4 by (rule refl)
qed

lemma np_fresh_kernel: "np (cell1 fresh_kernel) = Inl NameError"
  by (simp add: np_def cell1_def fresh_kernel_def)

lemma cell3_fresh_kernel: "snd (cell3 (ex_world fresh_kernel) ''/repo/data'') = Inr ex_v3"
  by code_simp

lemma cell4_fresh_kernel:
  "cell4 (cell1 fresh_kernel) (ex_world fresh_kernel) ex_v3 = Inl NameError"
  by code_simp

lemma cell6_fresh_kernel: "cell6 (cell1 fresh_kernel) c4 ex_v5 = Inl NameError"
  by (simp add: cell6_def ex_v5_def ex_slc_genes_def ex_ref_genes_def getattr_def
      bind_e_def gene_index_def np_fresh_kernel)

text \<open>
  C4 (the code at a kernel started afresh, the defect of C1): the merge step calls
  \<^verbatim>\<open>np.concatenate\<close> and \<^verbatim>\<open>np\<close> is unbound, cell 1 having imported the library as
  \<^verbatim>\<open>nps\<close>. On the four tables of the small data set, as cell 3 read them, cell 4 raises
  NameError: no merged count matrix is formed. In such a kernel cell 4 returns for no
  world and no tables. For the runs that complete, the merge is as the claim says
  (\<open>complete_run_merge\<close>).
\<close>

theorem C4_fresh_kernel_no_merged_counts:
  "snd (cell3 (ex_world fresh_kernel) ''/repo/data'') = Inr ex_v3
   \<and> np (cell1 fresh_kernel) = Inl NameError
   \<and> cell4 (cell1 fresh_kernel) (ex_world fresh_kernel) ex_v3 = Inl NameError
   \<and> cell4 (cell1 fresh_kernel) w c3 \<noteq> Inr c4"
proof -
  have "cell4 (cell1 fresh_kernel) w c3 \<noteq> Inr c4"
  proof
    assume "cell4 (cell1 fresh_kernel) w c3 = Inr c4"
    then have "np (cell1 fresh_kernel) = Inr ()"
      by (rule cell4_success)
    then show False
      by (simp add: np_fresh_kernel)
  qed
  then show ?thesis
    by (simp add: cell3_fresh_kernel np_fresh_kernel cell4_fresh_kernel)
qed

text \<open>
  C3 (the code at a kernel started afresh, the defect of C1): the run on the small data
  set ends with NameError in cell 4, before the normalization is called. Whatever the
  normalization computes, the run is the same: seven calls, no write attempted, no
  expression value written. For the runs that complete, the matrix written is as the
  claim says (\<open>complete_run_matrix\<close>).
\<close>

theorem C3_fresh_kernel_no_normalization:
  "notebook ((ex_world fresh_kernel)\<lparr>logcpm_cell := f\<rparr>) = (ex_reads, Inl NameError)
   \<and> attempted ex_reads = []
   \<and> serialized ex_reads = []"
proof -
  have "np (cell1 (kernel (ex_world fresh_kernel))) = Inl NameError"
    by (simp add: ex_world_def np_fresh_kernel)
  then have "notebook ((ex_world fresh_kernel)\<lparr>logcpm_cell := f\<rparr>)
      = notebook (ex_world fresh_kernel)"
    by (rule notebook_any_normalization)
  then show ?thesis
    by (simp add: notebook_fresh_kernel ex_reads_def)
qed

text \<open>
  C2 (the code at a kernel started afresh, the defect of C1): the run on the small data
  set ends in cell 4, so the gene list of cell 5 is not read and nothing is written; and
  cell 6 itself, given the gene lists of the small data set, raises NameError at
  \<^verbatim>\<open>np.where\<close>, before the mask is computed, whatever cell 4 left. For the runs that
  complete, one mask selects the rows of the matrix and of the table, and row for row
  they are the same cells (\<open>complete_run_mask\<close>, \<open>complete_run_rows_correspond\<close>).
\<close>

theorem C2_fresh_kernel_no_mask:
  "''slc_gene_df'' \<notin> set (steps (fst (notebook (ex_world fresh_kernel))))
   \<and> ''adata.write_h5ad'' \<notin> set (steps (fst (notebook (ex_world fresh_kernel))))
   \<and> cell6 (cell1 fresh_kernel) c4 ex_v5 = Inl NameError"
  by (simp add: notebook_fresh_kernel ex_reads_def steps_def cell6_fresh_kernel)

end
